theory Spec2Isabelle
  imports Main "HOL-Library.AList"
begin

section \<open>The CSV import pipeline of \<^verbatim>\<open>src/components/tables/CsvUpload.tsx\<close>\<close>

text \<open>
  The component parses an uploaded CSV file with PapaParse (\<^verbatim>\<open>header: true\<close>, no dynamic
  typing), validates student rows, coerces every cell by column name and hands the coerced
  rows to \<^verbatim>\<open>bulkInsert\<close>. This theory embeds \<^verbatim>\<open>validateStudentData\<close> and \<^verbatim>\<open>handleUpload\<close>.

  JavaScript strings are modelled as \<^typ>\<open>string\<close>: a \<^typ>\<open>char\<close> stands for a UTF-16 code unit
  below 256. Code units above that range are outside the model.
\<close>

subsection \<open>String primitives of the JavaScript runtime\<close>

text \<open>
  \<^verbatim>\<open>String.prototype.trim\<close>, the regular expression class \<^verbatim>\<open>\s\<close> and the \<^verbatim>\<open>StrWhiteSpaceChar\<close> of
  \<^verbatim>\<open>Number(string)\<close> share one set of characters (WhiteSpace and LineTerminator of ECMAScript).
  In the modelled range these are TAB, LF, VT, FF, CR, SPACE and NBSP.
\<close>

definition is_js_space :: "char \<Rightarrow> bool" where
  "is_js_space c \<longleftrightarrow>
     c \<in> set [CHR 0x09, CHR 0x0A, CHR 0x0B, CHR 0x0C, CHR 0x0D, CHR 0x20, CHR 0xA0]"

definition trim :: "string \<Rightarrow> string" where
  "trim s = rev (dropWhile is_js_space (rev (dropWhile is_js_space s)))"

text \<open>\<^verbatim>\<open>value.split(',')\<close>: the pieces between the separators, empty pieces kept.\<close>

fun split_on :: "char \<Rightarrow> string \<Rightarrow> string list" where
  "split_on sep [] = [[]]"
| "split_on sep (c # cs) =
     (if c = sep then [] # split_on sep cs
      else (case split_on sep cs of
              [] \<Rightarrow> [[c]]
            | w # ws \<Rightarrow> (c # w) # ws))"

definition startsWith :: "string \<Rightarrow> string \<Rightarrow> bool" where
  "startsWith s p \<longleftrightarrow> take (length p) s = p"

definition endsWith :: "string \<Rightarrow> string \<Rightarrow> bool" where
  "endsWith s p \<longleftrightarrow> length p \<le> length s \<and> drop (length s - length p) s = p"

text \<open>\<^verbatim>\<open>haystack.includes(needle)\<close>: \<open>needle\<close> occurs as a contiguous substring.\<close>

fun includes_str :: "string \<Rightarrow> string \<Rightarrow> bool" where
  "includes_str [] needle \<longleftrightarrow> needle = []"
| "includes_str (c # cs) needle \<longleftrightarrow> startsWith (c # cs) needle \<or> includes_str cs needle"

text \<open>\<^verbatim>\<open>parts.join(sep)\<close>.\<close>

fun join :: "string \<Rightarrow> string list \<Rightarrow> string" where
  "join sep [] = []"
| "join sep [p] = p"
| "join sep (p # q # ps) = p @ sep @ join sep (q # ps)"

text \<open>
  The decimal rendering of a row number inside a template literal
  (\<^verbatim>\<open>`Row ${index + 1}: ...`\<close>).
\<close>

definition digit_char :: "nat \<Rightarrow> char" where
  "digit_char d = ''0123456789'' ! d"

fun show_nat :: "nat \<Rightarrow> string" where
  "show_nat n = (if n < 10 then [digit_char n] else show_nat (n div 10) @ [digit_char (n mod 10)])"

declare show_nat.simps [simp del]

subsection \<open>\<^verbatim>\<open>isNaN(Number(value))\<close> on strings\<close>

text \<open>
  \<^verbatim>\<open>Number\<close> applied to a string yields \<^verbatim>\<open>NaN\<close> exactly when the string is not a
  \<^verbatim>\<open>StringNumericLiteral\<close>: optional white space around nothing at all (the value 0), a signed
  decimal literal (digits with an optional fraction and exponent, or \<^verbatim>\<open>Infinity\<close>), or an
  unsigned binary, octal or hexadecimal integer literal.
\<close>

definition is_decimal_digit :: "char \<Rightarrow> bool" where
  "is_decimal_digit c \<longleftrightarrow> c \<in> set ''0123456789''"

definition is_hex_digit :: "char \<Rightarrow> bool" where
  "is_hex_digit c \<longleftrightarrow> c \<in> set ''0123456789abcdefABCDEF''"

definition is_octal_digit :: "char \<Rightarrow> bool" where
  "is_octal_digit c \<longleftrightarrow> c \<in> set ''01234567''"

definition is_binary_digit :: "char \<Rightarrow> bool" where
  "is_binary_digit c \<longleftrightarrow> c \<in> set ''01''"

definition digits_of :: "(char \<Rightarrow> bool) \<Rightarrow> string \<Rightarrow> bool" where
  "digits_of p s \<longleftrightarrow> s \<noteq> [] \<and> list_all p s"

definition signed_integer :: "string \<Rightarrow> bool" where
  "signed_integer s \<longleftrightarrow>
     (case s of
        [] \<Rightarrow> False
      | c # cs \<Rightarrow> if c = CHR ''+'' \<or> c = CHR ''-'' then digits_of is_decimal_digit cs
                  else digits_of is_decimal_digit s)"

definition exponent_part_opt :: "string \<Rightarrow> bool" where
  "exponent_part_opt s \<longleftrightarrow>
     (case s of
        [] \<Rightarrow> True
      | c # cs \<Rightarrow> (c = CHR ''e'' \<or> c = CHR ''E'') \<and> signed_integer cs)"

definition str_unsigned_decimal_literal :: "string \<Rightarrow> bool" where
  "str_unsigned_decimal_literal s \<longleftrightarrow>
     s = ''Infinity'' \<or>
     (let ip = takeWhile is_decimal_digit s; r = dropWhile is_decimal_digit s in
      case r of
        [] \<Rightarrow> ip \<noteq> []
      | c # cs \<Rightarrow>
          if c = CHR ''.''
          then (let fp = takeWhile is_decimal_digit cs; r' = dropWhile is_decimal_digit cs in
                (ip \<noteq> [] \<or> fp \<noteq> []) \<and> exponent_part_opt r')
          else ip \<noteq> [] \<and> exponent_part_opt r)"

definition str_decimal_literal :: "string \<Rightarrow> bool" where
  "str_decimal_literal s \<longleftrightarrow>
     (case s of
        [] \<Rightarrow> False
      | c # cs \<Rightarrow> if c = CHR ''+'' \<or> c = CHR ''-'' then str_unsigned_decimal_literal cs
                  else str_unsigned_decimal_literal s)"

definition non_decimal_integer_literal :: "string \<Rightarrow> bool" where
  "non_decimal_integer_literal s \<longleftrightarrow>
     (case s of
        z # k # ds \<Rightarrow>
          z = CHR ''0'' \<and>
          (if k = CHR ''x'' \<or> k = CHR ''X'' then digits_of is_hex_digit ds
           else if k = CHR ''o'' \<or> k = CHR ''O'' then digits_of is_octal_digit ds
           else if k = CHR ''b'' \<or> k = CHR ''B'' then digits_of is_binary_digit ds
           else False)
      | _ \<Rightarrow> False)"

definition string_numeric_literal :: "string \<Rightarrow> bool" where
  "string_numeric_literal s \<longleftrightarrow>
     (let t = trim s in t = [] \<or> str_decimal_literal t \<or> non_decimal_integer_literal t)"

definition isNaN_Number :: "string \<Rightarrow> bool" where
  "isNaN_Number s \<longleftrightarrow> \<not> string_numeric_literal s"

subsection \<open>The email pattern\<close>

text \<open>
  The validator tests \<^verbatim>\<open>/^[^\s@]+@[^\s@]+\.[^\s@]+$/\<close>. A pattern is a sequence of items, each a
  literal character or the class \<^verbatim>\<open>[^\s@]\<close> repeated one or more times; the pattern is anchored
  at both ends, and a string matches when some way of cutting it fits (backtracking).
\<close>

datatype re_item = Lit char | NotSpaceAtPlus

definition not_space_at :: "char \<Rightarrow> bool" where
  "not_space_at c \<longleftrightarrow> \<not> is_js_space c \<and> c \<noteq> CHR ''@''"

fun re_test :: "re_item list \<Rightarrow> string \<Rightarrow> bool" where
  "re_test [] s \<longleftrightarrow> s = []"
| "re_test (Lit c # ps) [] \<longleftrightarrow> False"
| "re_test (Lit c # ps) (x # xs) \<longleftrightarrow> x = c \<and> re_test ps xs"
| "re_test (NotSpaceAtPlus # ps) [] \<longleftrightarrow> False"
| "re_test (NotSpaceAtPlus # ps) (x # xs) \<longleftrightarrow>
     not_space_at x \<and> (re_test (NotSpaceAtPlus # ps) xs \<or> re_test ps xs)"

definition email_regex :: "re_item list" where
  "email_regex = [NotSpaceAtPlus, Lit (CHR ''@''), NotSpaceAtPlus, Lit (CHR ''.''), NotSpaceAtPlus]"

subsection \<open>Values, rows and records\<close>

text \<open>
  A JavaScript value, with the type of numbers left open: IEEE doubles are not modelled, and
  nothing below computes with a number.
\<close>

datatype 'n jsval =
    JUndefined
  | JNull
  | JBool bool
  | JNum 'n
  | JStr string
  | JArr "'n jsval list"
  | JObj "(string \<times> 'n jsval) list"

text \<open>
  A parsed CSV row (\<^verbatim>\<open>Record<string, any>\<close> from PapaParse with \<^verbatim>\<open>header: true\<close>): its entries in
  insertion order. Every value is a string: PapaParse converts nothing without
  \<^verbatim>\<open>dynamicTyping\<close>, and a line with more or fewer fields than the header is reported in
  \<^verbatim>\<open>results.errors\<close>, on which \<^verbatim>\<open>handleUpload\<close> stops before it validates or coerces.
  \<^verbatim>\<open>row[field]\<close> is \<^term>\<open>map_of r field\<close>, with \<^term>\<open>None\<close> for \<^verbatim>\<open>undefined\<close>. The keys of a JavaScript
  object are pairwise distinct; where a property depends on it, it assumes
  \<^term>\<open>distinct (map fst r)\<close>.
\<close>

type_synonym raw_row = "(string \<times> string) list"

text \<open>An object built by the pipeline (\<^verbatim>\<open>newRow\<close>, a row of the backing store).\<close>

type_synonym 'n js_object = "(string \<times> 'n jsval) list"

subsection \<open>\<^verbatim>\<open>validateStudentData\<close>\<close>

record validation_error =
  row :: nat
  message :: string

definition dquote :: string where
  "dquote = [CHR 0x22]"

definition requiredFields :: "string list" where
  "requiredFields = [''first_name'', ''last_name'', ''student_email'', ''program_id'', ''center_id'']"

definition numericFields :: "string list" where
  "numericFields = [''program_id'', ''program_2_id'', ''center_id'', ''number_of_sessions'',
     ''educator_employee_id'', ''secondary_educator_employee_id'']"

definition row_prefix :: "nat \<Rightarrow> string" where
  "row_prefix index = ''Row '' @ show_nat (index + 1) @ '': ''"

definition missing_required_message :: "nat \<Rightarrow> string \<Rightarrow> string" where
  "missing_required_message index field =
     row_prefix index @ ''Missing required field '' @ dquote @ field @ dquote"

definition duplicate_in_file_message :: "nat \<Rightarrow> string \<Rightarrow> string" where
  "duplicate_in_file_message index sid =
     row_prefix index @ ''Duplicate student_id '' @ dquote @ sid @ dquote @ '' found in CSV file''"

definition already_exists_message :: "nat \<Rightarrow> string \<Rightarrow> string" where
  "already_exists_message index sid =
     row_prefix index @ ''student_id '' @ dquote @ sid @ dquote @ '' already exists in the database''"

definition invalid_email_message :: "nat \<Rightarrow> string \<Rightarrow> string" where
  "invalid_email_message index field = row_prefix index @ ''Invalid '' @ field @ '' format''"

definition invalid_numeric_message :: "nat \<Rightarrow> string \<Rightarrow> string" where
  "invalid_numeric_message index field =
     row_prefix index @ ''Invalid numeric value for '' @ dquote @ field @ dquote"

text \<open>The two variables the loop body mutates: the \<^verbatim>\<open>errors\<close> array and the \<^verbatim>\<open>seenIds\<close> set.\<close>

record 'n validator_state =
  errors :: "validation_error list"
  seenIds :: "'n jsval set"

text \<open>\<^verbatim>\<open>errors.push({ row: index + 1, message: msg })\<close>\<close>

definition push_error :: "nat \<Rightarrow> string \<Rightarrow> 'n validator_state \<Rightarrow> 'n validator_state" where
  "push_error index msg st = st\<lparr>errors := errors st @ [\<lparr>row = index + 1, message = msg\<rparr>]\<rparr>"

text \<open>\<^verbatim>\<open>!row[field] || row[field].toString().trim() === ''\<close>\<close>

definition missing_or_blank :: "raw_row \<Rightarrow> string \<Rightarrow> bool" where
  "missing_or_blank r field \<longleftrightarrow>
     (case map_of r field of
        None \<Rightarrow> True
      | Some v \<Rightarrow> v = [] \<or> trim v = [])"

text \<open>\<^verbatim>\<open>for (const field of requiredFields) { ... }\<close>\<close>

fun check_required :: "raw_row \<Rightarrow> nat \<Rightarrow> string list \<Rightarrow> 'n validator_state \<Rightarrow> 'n validator_state" where
  "check_required r index [] st = st"
| "check_required r index (field # rest) st =
     check_required r index rest
       (if missing_or_blank r field then push_error index (missing_required_message index field) st
        else st)"

text \<open>
  The block guarded by \<^verbatim>\<open>if (row.student_id)\<close>: the check against \<^verbatim>\<open>seenIds\<close>, then the check
  against \<^verbatim>\<open>existingIds\<close>. \<^verbatim>\<open>Set.prototype.has\<close> compares by SameValueZero, so a string is
  found only if the set holds that string.
\<close>

definition check_student_id :: "'n jsval set \<Rightarrow> raw_row \<Rightarrow> nat \<Rightarrow> 'n validator_state \<Rightarrow> 'n validator_state" where
  "check_student_id existingIds r index st =
     (case map_of r ''student_id'' of
        None \<Rightarrow> st
      | Some sid \<Rightarrow>
          if sid = [] then st
          else
            (let st1 = (if JStr sid \<in> seenIds st
                        then push_error index (duplicate_in_file_message index sid) st
                        else st\<lparr>seenIds := insert (JStr sid) (seenIds st)\<rparr>)
             in if JStr sid \<in> existingIds
                then push_error index (already_exists_message index sid) st1
                else st1))"

text \<open>\<^verbatim>\<open>if (row[field] && !/^[^\s@]+@[^\s@]+\.[^\s@]+$/.test(row[field]))\<close>\<close>

definition check_email :: "string \<Rightarrow> raw_row \<Rightarrow> nat \<Rightarrow> 'n validator_state \<Rightarrow> 'n validator_state" where
  "check_email field r index st =
     (case map_of r field of
        None \<Rightarrow> st
      | Some v \<Rightarrow>
          if v \<noteq> [] \<and> \<not> re_test email_regex v
          then push_error index (invalid_email_message index field) st
          else st)"

text \<open>\<^verbatim>\<open>row[field] && row[field] !== '' && isNaN(Number(row[field]))\<close>\<close>

definition not_numeric :: "raw_row \<Rightarrow> string \<Rightarrow> bool" where
  "not_numeric r field \<longleftrightarrow>
     (case map_of r field of
        None \<Rightarrow> False
      | Some v \<Rightarrow> v \<noteq> [] \<and> v \<noteq> [] \<and> isNaN_Number v)"

fun check_numeric :: "raw_row \<Rightarrow> nat \<Rightarrow> string list \<Rightarrow> 'n validator_state \<Rightarrow> 'n validator_state" where
  "check_numeric r index [] st = st"
| "check_numeric r index (field # rest) st =
     check_numeric r index rest
       (if not_numeric r field then push_error index (invalid_numeric_message index field) st
        else st)"

text \<open>The body of \<^verbatim>\<open>rows.forEach((row, index) => { ... })\<close>.\<close>

definition validate_row :: "'n jsval set \<Rightarrow> raw_row \<Rightarrow> nat \<Rightarrow> 'n validator_state \<Rightarrow> 'n validator_state" where
  "validate_row existingIds r index st =
     check_numeric r index numericFields
       (check_email ''parents_email'' r index
         (check_email ''student_email'' r index
           (check_student_id existingIds r index
             (check_required r index requiredFields st))))"

fun forEach_row :: "'n jsval set \<Rightarrow> raw_row list \<Rightarrow> nat \<Rightarrow> 'n validator_state \<Rightarrow> 'n validator_state" where
  "forEach_row existingIds [] index st = st"
| "forEach_row existingIds (r # rs) index st =
     forEach_row existingIds rs (Suc index) (validate_row existingIds r index st)"

definition validateStudentData :: "raw_row list \<Rightarrow> 'n jsval set \<Rightarrow> validation_error list" where
  "validateStudentData rows existingIds =
     errors (forEach_row existingIds rows 0 \<lparr>errors = [], seenIds = {}\<rparr>)"

subsection \<open>Runtime services taken as parameters\<close>

text \<open>
  What the pipeline asks of the JavaScript runtime beyond strings: the numeric value of
  \<^verbatim>\<open>Number(s)\<close> for a string that is a numeric literal, the truth value of a number,
  \<^verbatim>\<open>JSON.parse\<close> (\<^term>\<open>None\<close> when it throws), the time value of \<^verbatim>\<open>new Date(s)\<close> in milliseconds
  (\<^term>\<open>None\<close> for an invalid date, whose \<^verbatim>\<open>getTime()\<close> is \<^verbatim>\<open>NaN\<close>) and
  \<^verbatim>\<open>Date.prototype.toISOString\<close> on a valid time value.
\<close>

record 'n js_runtime =
  Number_value :: "string \<Rightarrow> 'n"
  falsy_number :: "'n \<Rightarrow> bool"
  JSON_parse :: "string \<Rightarrow> 'n jsval option"
  Date_parse :: "string \<Rightarrow> int option"
  toISOString :: "int \<Rightarrow> string"

text \<open>The negation \<^verbatim>\<open>!x\<close> of a property read, \<^term>\<open>None\<close> standing for an absent property.\<close>

fun falsy :: "'n js_runtime \<Rightarrow> 'n jsval option \<Rightarrow> bool" where
  "falsy rt None \<longleftrightarrow> True"
| "falsy rt (Some JUndefined) \<longleftrightarrow> True"
| "falsy rt (Some JNull) \<longleftrightarrow> True"
| "falsy rt (Some (JBool b)) \<longleftrightarrow> \<not> b"
| "falsy rt (Some (JNum n)) \<longleftrightarrow> falsy_number rt n"
| "falsy rt (Some (JStr s)) \<longleftrightarrow> s = []"
| "falsy rt (Some (JArr xs)) \<longleftrightarrow> False"
| "falsy rt (Some (JObj kvs)) \<longleftrightarrow> False"

subsection \<open>Type coercion of a row (\<^verbatim>\<open>processedRows\<close> in \<^verbatim>\<open>handleUpload\<close>)\<close>

definition numeric_columns :: "string list" where
  "numeric_columns = [''program_id'', ''program_2_id'', ''center_id'', ''number_of_sessions'',
     ''educator_employee_id'', ''secondary_educator_employee_id'', ''student_id'',
     ''enrollment_year'']"

definition array_columns :: "string list" where
  "array_columns = [''days_of_week'', ''timings'']"

text \<open>
  The \<^verbatim>\<open>try\<close> block of the array branch. Only \<^verbatim>\<open>JSON.parse\<close> can throw there; the handler
  stores \<^verbatim>\<open>[value]\<close>, the cell being a string.
\<close>

definition coerce_array :: "'n js_runtime \<Rightarrow> string \<Rightarrow> 'n jsval" where
  "coerce_array rt v =
     (if startsWith v ''['' \<and> endsWith v '']''
      then (case JSON_parse rt v of
              Some parsed \<Rightarrow> parsed
            | None \<Rightarrow> JArr [JStr v])
      else if includes_str v '',''
      then JArr (map (\<lambda>item. JStr (trim item)) (split_on (CHR '','') v))
      else JArr [JStr v])"

text \<open>
  The date branch: \<^verbatim>\<open>!isNaN(date.getTime()) ? date.toISOString() : value\<close>. \<^verbatim>\<open>toISOString\<close> is
  only reached on a valid date, where it does not throw.
\<close>

definition coerce_date :: "'n js_runtime \<Rightarrow> string \<Rightarrow> 'n jsval" where
  "coerce_date rt v =
     (case Date_parse rt v of
        Some t \<Rightarrow> JStr (toISOString rt t)
      | None \<Rightarrow> JStr v)"

text \<open>What the body of \<^verbatim>\<open>Object.entries(row).forEach(([key, value]) => ...)\<close> stores under \<open>key\<close>.\<close>

definition coerce_cell :: "'n js_runtime \<Rightarrow> string \<Rightarrow> string \<Rightarrow> 'n jsval" where
  "coerce_cell rt key v =
     (if v = [] then JNull
      else if key \<in> set numeric_columns \<and> \<not> isNaN_Number v then JNum (Number_value rt v)
      else if key \<in> set array_columns then coerce_array rt v
      else if key = ''dob'' \<or> key = ''created_at'' then coerce_date rt v
      else JStr v)"

definition coerce_entries :: "'n js_runtime \<Rightarrow> raw_row \<Rightarrow> 'n js_object" where
  "coerce_entries rt r =
     foldl (\<lambda>newRow (key, v). AList.update key (coerce_cell rt key v) newRow) [] r"

text \<open>
  One call of the \<^verbatim>\<open>rows.map\<close> callback. \<open>now\<close> is the time value that \<^verbatim>\<open>new Date()\<close> reads
  while this row is processed.
\<close>

definition process_row :: "'n js_runtime \<Rightarrow> int \<Rightarrow> raw_row \<Rightarrow> 'n js_object" where
  "process_row rt now r =
     (let newRow = coerce_entries rt r in
      if falsy rt (map_of newRow ''created_at'')
      then AList.update ''created_at'' (JStr (toISOString rt now)) newRow
      else newRow)"

definition process_rows :: "'n js_runtime \<Rightarrow> (nat \<Rightarrow> int) \<Rightarrow> raw_row list \<Rightarrow> 'n js_object list" where
  "process_rows rt clock rows = map (\<lambda>(i, r). process_row rt (clock i) r) (enumerate 0 rows)"

subsection \<open>\<^verbatim>\<open>handleUpload\<close>\<close>

text \<open>A caught exception, read through \<^verbatim>\<open>err.message\<close> (\<^term>\<open>None\<close> when it is undefined).\<close>

type_synonym js_error = "string option"

text \<open>
  The argument PapaParse gives to \<^verbatim>\<open>complete\<close> (the messages of \<^verbatim>\<open>results.errors\<close> and
  \<^verbatim>\<open>results.data\<close>), or the message it gives to \<^verbatim>\<open>error\<close>.
\<close>

datatype parse_results =
    ParseComplete "string list" "raw_row list"
  | ParseFailed string

record insert_result =
  success :: bool
  result_message :: string

text \<open>
  The component's state and props, and the answers of its collaborators: the selected file
  (\<^term>\<open>None\<close> when there is none, \<^term>\<open>Inl\<close> when \<^verbatim>\<open>file.text()\<close> rejects), \<^verbatim>\<open>fetchTableData\<close>
  (\<^term>\<open>Inl\<close> when it rejects, \<^term>\<open>None\<close> for \<^verbatim>\<open>null\<close>), \<^verbatim>\<open>Papa.parse\<close>, \<^verbatim>\<open>bulkInsert\<close>, the
  clock read while the i-th row is coerced, and whether \<^verbatim>\<open>onClose\<close> was passed.
\<close>

record 'n upload_env =
  selected_file :: "(js_error + string) option"
  fetchTableData :: "string \<Rightarrow> js_error + 'n js_object list option"
  Papa_parse :: "string \<Rightarrow> parse_results"
  bulkInsert :: "string \<Rightarrow> 'n js_object list \<Rightarrow> js_error + insert_result"
  clock :: "nat \<Rightarrow> int"
  onClose :: bool

text \<open>
  What a run of \<^verbatim>\<open>handleUpload\<close> does to the outside, in order: state updates, calls to the
  backing store, the toast and the callbacks. Writes to the console are left out, and the
  toast and the callbacks are taken not to throw.
\<close>

datatype 'n effect =
    SetError "string option"
  | SetIsUploading bool
  | FetchTableData string
  | BulkInsert string "'n js_object list"
  | ToastSuccess string
  | OnSuccess
  | OnClose

text \<open>\<^verbatim>\<open>err.message || fallback\<close>\<close>

definition message_or :: "js_error \<Rightarrow> string \<Rightarrow> string" where
  "message_or err fallback =
     (case err of
        None \<Rightarrow> fallback
      | Some m \<Rightarrow> if m = [] then fallback else m)"

definition duplicate_key_notice :: string where
  "duplicate_key_notice =
     ''Some student IDs in your file already exist in the database. Please check and try again.''"

definition classify_message :: "string \<Rightarrow> string" where
  "classify_message m =
     (if includes_str m ''duplicate key value'' then duplicate_key_notice else m)"

definition newline :: string where
  "newline = [CHR 0x0A]"

definition validation_report :: "validation_error list \<Rightarrow> string" where
  "validation_report validationErrors =
     ''Validation errors found:'' @ newline @
     join newline (map message (take 5 validationErrors)) @
     (if length validationErrors > 5
      then newline @ ''...and '' @ show_nat (length validationErrors - 5) @ '' more errors''
      else [])"

text \<open>The \<^verbatim>\<open>try\<close>/\<^verbatim>\<open>catch\<close> around \<^verbatim>\<open>await bulkInsert(tableName, processedRows)\<close>.\<close>

definition persist :: "'n upload_env \<Rightarrow> string \<Rightarrow> 'n js_object list \<Rightarrow> 'n effect list" where
  "persist env tableName processedRows =
     BulkInsert tableName processedRows #
     (case bulkInsert env tableName processedRows of
        Inr result \<Rightarrow>
          SetIsUploading False #
          (if success result
           then [ToastSuccess (result_message result), OnSuccess] @
                (if onClose env then [OnClose] else [])
           else [SetError (Some (classify_message (result_message result)))])
      | Inl err \<Rightarrow>
          [SetError (Some (classify_message (message_or err ''Error uploading data''))),
           SetIsUploading False])"

text \<open>The \<^verbatim>\<open>complete\<close> and \<^verbatim>\<open>error\<close> callbacks given to \<^verbatim>\<open>Papa.parse\<close>.\<close>

definition on_parsed :: "'n js_runtime \<Rightarrow> 'n upload_env \<Rightarrow> string \<Rightarrow> 'n jsval set \<Rightarrow> parse_results \<Rightarrow> 'n effect list" where
  "on_parsed rt env tableName existingIds results =
     (case results of
        ParseFailed m \<Rightarrow> [SetError (Some (''CSV parsing error: '' @ m)), SetIsUploading False]
      | ParseComplete errs rows \<Rightarrow>
          (case errs of
             e # _ \<Rightarrow> [SetError (Some (''CSV parsing error: '' @ e)), SetIsUploading False]
           | [] \<Rightarrow>
               if rows = [] then [SetError (Some ''CSV file contains no data''), SetIsUploading False]
               else if tableName = ''students'' \<and> validateStudentData rows existingIds \<noteq> []
               then [SetError (Some (validation_report (validateStudentData rows existingIds))),
                     SetIsUploading False]
               else persist env tableName (process_rows rt (clock env) rows)))"

text \<open>\<^verbatim>\<open>new Set(existingData.map(item => item.student_id))\<close>\<close>

definition existing_student_ids :: "'n js_object list \<Rightarrow> 'n jsval set" where
  "existing_student_ids existingData =
     set (map (\<lambda>item. case map_of item ''student_id'' of None \<Rightarrow> JUndefined | Some x \<Rightarrow> x)
            existingData)"

definition on_read_error :: "js_error \<Rightarrow> 'n effect list" where
  "on_read_error err = [SetError (Some (message_or err ''Error reading file'')), SetIsUploading False]"

definition handleUpload :: "'n js_runtime \<Rightarrow> 'n upload_env \<Rightarrow> string \<Rightarrow> 'n effect list" where
  "handleUpload rt env tableName =
     (case selected_file env of
        None \<Rightarrow> [SetError (Some ''Please select a CSV file first'')]
      | Some contents \<Rightarrow>
          [SetIsUploading True, SetError None] @
          (case contents of
             Inl err \<Rightarrow> on_read_error err
           | Inr text \<Rightarrow>
               if tableName = ''students''
               then FetchTableData tableName #
                    (case fetchTableData env tableName of
                       Inl err \<Rightarrow> on_read_error err
                     | Inr None \<Rightarrow> on_parsed rt env tableName {} (Papa_parse env text)
                     | Inr (Some existingData) \<Rightarrow>
                         on_parsed rt env tableName (existing_student_ids existingData)
                           (Papa_parse env text))
               else on_parsed rt env tableName {} (Papa_parse env text)))"

text \<open>The events that go over the network: both are calls to the backing store.\<close>

fun is_network_call :: "'n effect \<Rightarrow> bool" where
  "is_network_call (FetchTableData t) \<longleftrightarrow> True"
| "is_network_call (BulkInsert t rs) \<longleftrightarrow> True"
| "is_network_call _ \<longleftrightarrow> False"

fun is_bulk_insert :: "'n effect \<Rightarrow> bool" where
  "is_bulk_insert (BulkInsert t rs) \<longleftrightarrow> True"
| "is_bulk_insert _ \<longleftrightarrow> False"

subsection \<open>The validation rules as the specification words them\<close>

text \<open>
  Each rule is a function of the row, its index and, for the duplicate rules, the rows before
  it and the identifiers of the store; none looks at what another rule found. The validator
  of the specification applies all of them to every row and concatenates what they emit, rows
  in file order and rules in the order of the text. Its numeric-shape rule is over the columns
  designated numeric, which are the columns that coercion converts to numbers.
\<close>

definition entry :: "nat \<Rightarrow> string \<Rightarrow> validation_error" where
  "entry index msg = \<lparr>row = index + 1, message = msg\<rparr>"

text \<open>The identifier of a row, if it has a non-empty one.\<close>

definition row_identifier :: "raw_row \<Rightarrow> string option" where
  "row_identifier r =
     (case map_of r ''student_id'' of
        None \<Rightarrow> None
      | Some sid \<Rightarrow> if sid = [] then None else Some sid)"

definition required_field_rule :: "nat \<Rightarrow> raw_row \<Rightarrow> validation_error list" where
  "required_field_rule index r =
     map (\<lambda>field. entry index (missing_required_message index field))
       (filter (missing_or_blank r) requiredFields)"

definition intra_file_duplicate_rule :: "raw_row list \<Rightarrow> nat \<Rightarrow> raw_row \<Rightarrow> validation_error list" where
  "intra_file_duplicate_rule earlier index r =
     (case row_identifier r of
        None \<Rightarrow> []
      | Some sid \<Rightarrow>
          if Some sid \<in> set (map row_identifier earlier)
          then [entry index (duplicate_in_file_message index sid)]
          else [])"

definition cross_store_duplicate_rule :: "'n jsval set \<Rightarrow> nat \<Rightarrow> raw_row \<Rightarrow> validation_error list" where
  "cross_store_duplicate_rule existingIds index r =
     (case row_identifier r of
        None \<Rightarrow> []
      | Some sid \<Rightarrow>
          if JStr sid \<in> existingIds
          then [entry index (already_exists_message index sid)]
          else [])"

definition format_rule :: "string \<Rightarrow> nat \<Rightarrow> raw_row \<Rightarrow> validation_error list" where
  "format_rule field index r =
     (case map_of r field of
        None \<Rightarrow> []
      | Some v \<Rightarrow>
          if v \<noteq> [] \<and> \<not> re_test email_regex v
          then [entry index (invalid_email_message index field)]
          else [])"

definition numeric_shape_rule :: "nat \<Rightarrow> raw_row \<Rightarrow> validation_error list" where
  "numeric_shape_rule index r =
     map (\<lambda>field. entry index (invalid_numeric_message index field))
       (filter (not_numeric r) numeric_columns)"

definition specified_rules_for_row :: "'n jsval set \<Rightarrow> raw_row list \<Rightarrow> nat \<Rightarrow> raw_row \<Rightarrow> validation_error list" where
  "specified_rules_for_row existingIds earlier index r =
     required_field_rule index r @
     intra_file_duplicate_rule earlier index r @
     cross_store_duplicate_rule existingIds index r @
     format_rule ''student_email'' index r @
     format_rule ''parents_email'' index r @
     numeric_shape_rule index r"

definition validate_as_specified :: "raw_row list \<Rightarrow> 'n jsval set \<Rightarrow> validation_error list" where
  "validate_as_specified rows existingIds =
     concat (map (\<lambda>(i, r). specified_rules_for_row existingIds (take i rows) i r)
               (enumerate 0 rows))"

subsection \<open>The validation rules as the validator has them\<close>

text \<open>
  The same rules, except that the numeric rule is over the validator's own list
  \<^verbatim>\<open>numericFields\<close>, which lacks \<^verbatim>\<open>student_id\<close> and \<^verbatim>\<open>enrollment_year\<close>.
\<close>

definition numeric_fields_rule :: "nat \<Rightarrow> raw_row \<Rightarrow> validation_error list" where
  "numeric_fields_rule index r =
     map (\<lambda>field. entry index (invalid_numeric_message index field))
       (filter (not_numeric r) numericFields)"

definition rules_for_row :: "'n jsval set \<Rightarrow> raw_row list \<Rightarrow> nat \<Rightarrow> raw_row \<Rightarrow> validation_error list" where
  "rules_for_row existingIds earlier index r =
     required_field_rule index r @
     intra_file_duplicate_rule earlier index r @
     cross_store_duplicate_rule existingIds index r @
     format_rule ''student_email'' index r @
     format_rule ''parents_email'' index r @
     numeric_fields_rule index r"

definition validate_by_rules :: "raw_row list \<Rightarrow> 'n jsval set \<Rightarrow> validation_error list" where
  "validate_by_rules rows existingIds =
     concat (map (\<lambda>(i, r). rules_for_row existingIds (take i rows) i r) (enumerate 0 rows))"

text \<open>
  What the loop maintains in \<^verbatim>\<open>seenIds\<close>: the non-empty identifiers of the rows already
  visited, as strings.
\<close>

definition seen_invariant :: "'n validator_state \<Rightarrow> raw_row list \<Rightarrow> bool" where
  "seen_invariant st earlier \<longleftrightarrow>
     seenIds st = JStr ` {sid. Some sid \<in> set (map row_identifier earlier)}"

subsection \<open>A runtime, a store and files for the examples\<close>

text \<open>
  The examples run on a runtime that answers as a JavaScript engine does on the strings and
  times they use (and arbitrarily elsewhere), with numbers read as integers.
\<close>

definition example_runtime :: "int js_runtime" where
  "example_runtime =
     \<lparr>Number_value = (\<lambda>s. if s = ''1'' then 1 else if s = ''2'' then 2
                          else if s = ''101'' then 101 else if s = ''102'' then 102 else 0),
      falsy_number = (\<lambda>n. n = 0),
      JSON_parse = (\<lambda>s. if s = ''[1,2]'' then Some (JArr [JNum 1, JNum 2]) else None),
      Date_parse = (\<lambda>s. if s = ''1970-01-02'' then Some 86400000 else None),
      toISOString = (\<lambda>t. if t = 86400000 then ''1970-01-02T00:00:00.000Z''
                         else if t = 1000 then ''1970-01-01T00:00:01.000Z''
                         else ''1970-01-01T00:00:00.000Z'')\<rparr>"

definition student_row :: "string \<Rightarrow> string \<Rightarrow> string \<Rightarrow> string \<Rightarrow> raw_row" where
  "student_row sid first_name last_name email =
     [(''first_name'', first_name), (''last_name'', last_name), (''student_id'', sid),
      (''student_email'', email), (''program_id'', ''1''), (''center_id'', ''2'')]"

text \<open>
  Three data rows: the second has a blank \<^verbatim>\<open>last_name\<close>, the third repeats the identifier of
  the first.
\<close>

definition three_rows :: "raw_row list" where
  "three_rows =
     [student_row ''101'' ''Ann'' ''Lee'' ''ann@example.com'',
      student_row ''102'' ''Bob'' [] ''bob@example.com'',
      student_row ''101'' ''Cid'' ''Ray'' ''cid@example.com'']"

text \<open>Two valid data rows, neither with a \<^verbatim>\<open>created_at\<close> column.\<close>

definition two_rows :: "raw_row list" where
  "two_rows =
     [student_row ''101'' ''Ann'' ''Lee'' ''ann@example.com'',
      student_row ''102'' ''Bob'' ''Orr'' ''bob@example.com'']"

text \<open>
  A store that holds one student and accepts every insert, a file that parses to the given
  rows, a clock that stands at one second after the epoch, and an \<^verbatim>\<open>onClose\<close> callback.
\<close>

definition example_env :: "raw_row list \<Rightarrow> int upload_env" where
  "example_env rows =
     \<lparr>selected_file = Some (Inr ''students.csv''),
      fetchTableData = (\<lambda>t. Inr (Some [[(''student_id'', JStr ''100'')]])),
      Papa_parse = (\<lambda>text. ParseComplete [] rows),
      bulkInsert = (\<lambda>t rs. Inr \<lparr>success = True, result_message = ''Inserted''\<rparr>),
      clock = (\<lambda>i. 1000),
      onClose = True\<rparr>"

text \<open>The same store when \<^verbatim>\<open>bulkInsert\<close> rejects with the given error.\<close>

definition failing_env :: "raw_row list \<Rightarrow> js_error \<Rightarrow> int upload_env" where
  "failing_env rows err = (example_env rows)\<lparr>bulkInsert := (\<lambda>t rs. Inl err)\<rparr>"

text \<open>The same store when \<^verbatim>\<open>bulkInsert\<close> answers \<^verbatim>\<open>{ success: false, message }\<close>.\<close>

definition refusing_env :: "raw_row list \<Rightarrow> string \<Rightarrow> int upload_env" where
  "refusing_env rows m =
     (example_env rows)\<lparr>bulkInsert := (\<lambda>t rs. Inr \<lparr>success = False, result_message = m\<rparr>)\<rparr>"

section \<open>Properties\<close>

subsection \<open>The validator computes what the rules say\<close>


lemma errors_push_error: "errors (push_error i m st) = errors st @ [entry i m]"
  by (simp add: push_error_def entry_def)

lemma seenIds_push_error: "seenIds (push_error i m st) = seenIds st"
  by (simp add: push_error_def)

lemma check_required_errors:
  "errors (check_required r i fs st) =
     errors st @ map (\<lambda>f. entry i (missing_required_message i f)) (filter (missing_or_blank r) fs)"
  by (induction fs arbitrary: st) (simp_all add: errors_push_error)

lemma check_required_seenIds: "seenIds (check_required r i fs st) = seenIds st"
  by (induction fs arbitrary: st) (simp_all add: seenIds_push_error)

lemma check_numeric_errors:
  "errors (check_numeric r i fs st) =
     errors st @ map (\<lambda>f. entry i (invalid_numeric_message i f)) (filter (not_numeric r) fs)"
  by (induction fs arbitrary: st) (simp_all add: errors_push_error)

lemma check_numeric_seenIds: "seenIds (check_numeric r i fs st) = seenIds st"
  by (induction fs arbitrary: st) (simp_all add: seenIds_push_error)

lemma check_email_errors: "errors (check_email f r i st) = errors st @ format_rule f i r"
  by (simp add: check_email_def format_rule_def errors_push_error split: option.splits)

lemma check_email_seenIds: "seenIds (check_email f r i st) = seenIds st"
  by (simp add: check_email_def seenIds_push_error split: option.splits)

lemma check_student_id_errors:
  assumes "seenIds st = JStr ` {sid. Some sid \<in> set (map row_identifier earlier)}"
  shows "errors (check_student_id ex r i st) =
     errors st @ intra_file_duplicate_rule earlier i r @ cross_store_duplicate_rule ex i r"
  using assms
  by (auto simp add: check_student_id_def intra_file_duplicate_rule_def cross_store_duplicate_rule_def
      row_identifier_def errors_push_error seenIds_push_error Let_def split: option.splits)

lemma check_student_id_seenIds:
  assumes "seenIds st = JStr ` {sid. Some sid \<in> set (map row_identifier earlier)}"
  shows "seenIds (check_student_id ex r i st) = JStr ` {sid. Some sid \<in> set (map row_identifier (earlier @ [r]))}"
  using assms
  by (auto simp add: check_student_id_def row_identifier_def seenIds_push_error Let_def split: option.splits if_splits)


lemma validate_row_errors:
  assumes "seen_invariant st earlier"
  shows "errors (validate_row ex r i st) = errors st @ rules_for_row ex earlier i r"
proof -
  have inv: "seenIds (check_required r i requiredFields st) =
      JStr ` {sid. Some sid \<in> set (map row_identifier earlier)}"
    using assms by (simp add: check_required_seenIds seen_invariant_def)
  show ?thesis
    by (simp add: validate_row_def check_numeric_errors check_email_errors
        check_student_id_errors [OF inv] check_required_errors rules_for_row_def
        required_field_rule_def numeric_fields_rule_def)
qed

lemma validate_row_invariant:
  assumes "seen_invariant st earlier"
  shows "seen_invariant (validate_row ex r i st) (earlier @ [r])"
proof -
  have inv: "seenIds (check_required r i requiredFields st) =
      JStr ` {sid. Some sid \<in> set (map row_identifier earlier)}"
    using assms by (simp add: check_required_seenIds seen_invariant_def)
  show ?thesis
    unfolding seen_invariant_def validate_row_def
    by (simp only: check_numeric_seenIds check_email_seenIds check_student_id_seenIds [OF inv])
qed

lemma forEach_row_errors:
  assumes "seen_invariant st earlier"
  shows "errors (forEach_row ex rs (length earlier) st) =
     errors st @
     concat (map (\<lambda>(i, r). rules_for_row ex (take i (earlier @ rs)) i r)
               (enumerate (length earlier) rs))"
  using assms
proof (induction rs arbitrary: st earlier)
  case Nil
  then show ?case by simp
next
  case (Cons r rs)
  have step: "seen_invariant (validate_row ex r (length earlier) st) (earlier @ [r])"
    using Cons.prems by (rule validate_row_invariant)
  have "errors (forEach_row ex (r # rs) (length earlier) st) =
      errors (forEach_row ex rs (length (earlier @ [r])) (validate_row ex r (length earlier) st))"
    by simp
  also have "\<dots> = errors (validate_row ex r (length earlier) st) @
      concat (map (\<lambda>(i, r'). rules_for_row ex (take i ((earlier @ [r]) @ rs)) i r')
                (enumerate (length (earlier @ [r])) rs))"
    using step by (rule Cons.IH)
  finally show ?case
    by (simp add: validate_row_errors [OF Cons.prems])
qed

lemma validate_eq_rules: "validateStudentData rows ex = validate_by_rules rows ex"
proof -
  have "seen_invariant \<lparr>errors = [], seenIds = {}\<rparr> []"
    by (simp add: seen_invariant_def)
  from forEach_row_errors [OF this, of ex rows]
  show ?thesis
    by (simp add: validateStudentData_def validate_by_rules_def)
qed


lemmas message_defs = row_prefix_def missing_required_message_def duplicate_in_file_message_def
  already_exists_message_def invalid_email_message_def invalid_numeric_message_def dquote_def

lemma entry_eq_iff: "entry i m = entry j m' \<longleftrightarrow> i = j \<and> m = m'"
  by (auto simp add: entry_def)

lemma row_entry: "row (entry i m) = i + 1"
  by (simp add: entry_def)

lemma in_required_field_rule:
  "e \<in> set (required_field_rule i r) \<longleftrightarrow>
     (\<exists>f \<in> set requiredFields. missing_or_blank r f \<and> e = entry i (missing_required_message i f))"
  by (auto simp add: required_field_rule_def)

lemma in_numeric_fields_rule:
  "e \<in> set (numeric_fields_rule i r) \<longleftrightarrow>
     (\<exists>f \<in> set numericFields. not_numeric r f \<and> e = entry i (invalid_numeric_message i f))"
  by (auto simp add: numeric_fields_rule_def)

lemma in_intra_file_duplicate_rule:
  "e \<in> set (intra_file_duplicate_rule earlier i r) \<longleftrightarrow>
     (\<exists>sid. row_identifier r = Some sid \<and> Some sid \<in> set (map row_identifier earlier) \<and>
        e = entry i (duplicate_in_file_message i sid))"
  by (cases "row_identifier r") (auto simp add: intra_file_duplicate_rule_def)

lemma in_cross_store_duplicate_rule:
  "e \<in> set (cross_store_duplicate_rule ex i r) \<longleftrightarrow>
     (\<exists>sid. row_identifier r = Some sid \<and> JStr sid \<in> ex \<and>
        e = entry i (already_exists_message i sid))"
  by (cases "row_identifier r") (auto simp add: cross_store_duplicate_rule_def)

lemma in_format_rule:
  "e \<in> set (format_rule f i r) \<longleftrightarrow>
     (\<exists>v. map_of r f = Some v \<and> v \<noteq> [] \<and> \<not> re_test email_regex v \<and>
        e = entry i (invalid_email_message i f))"
  by (cases "map_of r f") (auto simp add: format_rule_def)

lemmas in_rule_iffs = in_required_field_rule in_intra_file_duplicate_rule
  in_cross_store_duplicate_rule in_format_rule in_numeric_fields_rule

lemma row_of_rules: "e \<in> set (rules_for_row ex earlier i r) \<Longrightarrow> row e = i + 1"
  by (auto simp add: rules_for_row_def in_rule_iffs row_entry)

lemma set_validate_by_rules:
  "set (validate_by_rules rows ex) =
     (\<Union>i<length rows. set (rules_for_row ex (take i rows) i (rows ! i)))"
proof -
  have "set (enumerate 0 rows) = (\<lambda>i. (i, rows ! i)) ` {..<length rows}"
    by (auto simp add: in_set_enumerate_eq image_iff)
  then show ?thesis
    by (simp add: validate_by_rules_def)
qed

lemma in_validate_iff:
  assumes "i < length rows"
  shows "entry i m \<in> set (validateStudentData rows ex) \<longleftrightarrow>
         entry i m \<in> set (rules_for_row ex (take i rows) i (rows ! i))"
proof
  assume "entry i m \<in> set (validateStudentData rows ex)"
  then obtain j where j: "j < length rows"
      "entry i m \<in> set (rules_for_row ex (take j rows) j (rows ! j))"
    by (auto simp add: validate_eq_rules set_validate_by_rules)
  from row_of_rules [OF j(2)] have "j = i" by (simp add: row_entry)
  with j(2) show "entry i m \<in> set (rules_for_row ex (take i rows) i (rows ! i))" by simp
next
  assume "entry i m \<in> set (rules_for_row ex (take i rows) i (rows ! i))"
  with assms show "entry i m \<in> set (validateStudentData rows ex)"
    by (auto simp add: validate_eq_rules set_validate_by_rules)
qed

lemma in_rules_for_row:
  "e \<in> set (rules_for_row ex earlier i r) \<longleftrightarrow>
     e \<in> set (required_field_rule i r) \<or> e \<in> set (intra_file_duplicate_rule earlier i r) \<or>
     e \<in> set (cross_store_duplicate_rule ex i r) \<or> e \<in> set (format_rule ''student_email'' i r) \<or>
     e \<in> set (format_rule ''parents_email'' i r) \<or> e \<in> set (numeric_fields_rule i r)"
  by (simp add: rules_for_row_def)

lemma duplicate_entry_iff:
  "entry i (duplicate_in_file_message i sid) \<in> set (rules_for_row ex earlier i r) \<longleftrightarrow>
     row_identifier r = Some sid \<and> Some sid \<in> set (map row_identifier earlier)"
  by (auto simp add: in_rules_for_row in_rule_iffs entry_eq_iff message_defs)

lemma exists_entry_iff:
  "entry i (already_exists_message i sid) \<in> set (rules_for_row ex earlier i r) \<longleftrightarrow>
     row_identifier r = Some sid \<and> JStr sid \<in> ex"
  by (auto simp add: in_rules_for_row in_rule_iffs entry_eq_iff message_defs)

lemma missing_entry_iff:
  "entry i (missing_required_message i f) \<in> set (rules_for_row ex earlier i r) \<longleftrightarrow>
     f \<in> set requiredFields \<and> missing_or_blank r f"
  by (auto simp add: in_rules_for_row in_rule_iffs entry_eq_iff message_defs)

lemma numeric_entry_iff:
  "entry i (invalid_numeric_message i f) \<in> set (rules_for_row ex earlier i r) \<longleftrightarrow>
     f \<in> set numericFields \<and> not_numeric r f"
  by (auto simp add: in_rules_for_row in_rule_iffs entry_eq_iff message_defs)

lemma email_entry_iff:
  assumes "f = ''student_email'' \<or> f = ''parents_email''"
  shows "entry i (invalid_email_message i f) \<in> set (rules_for_row ex earlier i r) \<longleftrightarrow>
     (\<exists>v. map_of r f = Some v \<and> v \<noteq> [] \<and> \<not> re_test email_regex v)"
  using assms
  by (auto simp add: in_rules_for_row in_rule_iffs entry_eq_iff message_defs)

lemma entry_record: "\<lparr>row = i + 1, message = m\<rparr> = entry i m"
  by (simp add: entry_def)

lemma row_identifier_Some:
  "map_of r ''student_id'' = Some sid \<Longrightarrow> sid \<noteq> [] \<Longrightarrow> row_identifier r = Some sid"
  by (simp add: row_identifier_def)

lemma row_identifier_None:
  "map_of r ''student_id'' = None \<or> map_of r ''student_id'' = Some [] \<Longrightarrow> row_identifier r = None"
  by (auto simp add: row_identifier_def)

text \<open>The definitions that decide the validator on a concrete file.\<close>

lemmas rule_defs = validate_by_rules_def rules_for_row_def required_field_rule_def
  intra_file_duplicate_rule_def cross_store_duplicate_rule_def format_rule_def
  numeric_fields_rule_def row_identifier_def requiredFields_def numericFields_def
  missing_or_blank_def not_numeric_def

lemmas string_defs = trim_def is_js_space_def email_regex_def not_space_at_def isNaN_Number_def
  string_numeric_literal_def str_decimal_literal_def str_unsigned_decimal_literal_def
  non_decimal_integer_literal_def exponent_part_opt_def signed_integer_def digits_of_def
  is_decimal_digit_def is_hex_digit_def is_octal_digit_def is_binary_digit_def

subsection \<open>Duplicate detection\<close>

text \<open>
  Claim C3. For three rows whose identifiers are \<open>a\<close>, \<open>b\<close>, \<open>a\<close> (both non-empty) and a set of
  existing identifiers that holds \<open>b\<close>, the validator reports a duplicate within the file on
  row 3, where the repeat occurs, and none on row 1, the first occurrence; it reports
  "already exists" on row 2; the check against the store is made whether or not the row is a
  duplicate within the file (if the store also holds \<open>a\<close>, row 3 gets both errors); and there
  are at least two errors.
\<close>

theorem duplicates_A_B_A:
  assumes "map_of r1 ''student_id'' = Some a"
    and "map_of r2 ''student_id'' = Some b"
    and "map_of r3 ''student_id'' = Some a"
    and "a \<noteq> []" and "b \<noteq> []"
    and "JStr b \<in> existingIds"
  shows "\<lparr>row = 3, message = duplicate_in_file_message 2 a\<rparr>
           \<in> set (validateStudentData [r1, r2, r3] existingIds) \<and>
         (\<forall>sid. \<lparr>row = 1, message = duplicate_in_file_message 0 sid\<rparr>
           \<notin> set (validateStudentData [r1, r2, r3] existingIds)) \<and>
         \<lparr>row = 2, message = already_exists_message 1 b\<rparr>
           \<in> set (validateStudentData [r1, r2, r3] existingIds) \<and>
         (JStr a \<in> existingIds \<longrightarrow>
            \<lparr>row = 3, message = already_exists_message 2 a\<rparr>
              \<in> set (validateStudentData [r1, r2, r3] existingIds)) \<and>
         2 \<le> length (validateStudentData [r1, r2, r3] existingIds)"
proof -
  let ?rows = "[r1, r2, r3]"
  let ?E = "validateStudentData ?rows existingIds"
  have id1: "row_identifier r1 = Some a" and id2: "row_identifier r2 = Some b"
    and id3: "row_identifier r3 = Some a"
    using assms by (simp_all add: row_identifier_Some)
  have third: "entry 2 (duplicate_in_file_message 2 a) \<in> set ?E"
    using in_validate_iff [of 2 ?rows "duplicate_in_file_message 2 a" existingIds]
    by (simp add: duplicate_entry_iff id1 id3)
  have first: "entry 0 (duplicate_in_file_message 0 sid) \<notin> set ?E" for sid
    using in_validate_iff [of 0 ?rows "duplicate_in_file_message 0 sid" existingIds]
    by (simp add: duplicate_entry_iff)
  have second: "entry 1 (already_exists_message 1 b) \<in> set ?E"
    using in_validate_iff [of 1 ?rows "already_exists_message 1 b" existingIds] assms(6)
    by (simp add: exists_entry_iff id2)
  have both: "entry 2 (already_exists_message 2 a) \<in> set ?E" if "JStr a \<in> existingIds"
    using in_validate_iff [of 2 ?rows "already_exists_message 2 a" existingIds] that
    by (simp add: exists_entry_iff id3)
  have "length (intra_file_duplicate_rule [r1, r2] (Suc (Suc 0)) r3) = 1"
    by (simp add: intra_file_duplicate_rule_def id1 id3)
  moreover have "length (cross_store_duplicate_rule existingIds (Suc 0) r2) = 1"
    using assms(6) by (simp add: cross_store_duplicate_rule_def id2)
  ultimately have len: "2 \<le> length ?E"
    by (simp add: validate_eq_rules validate_by_rules_def rules_for_row_def)
  have e3: "\<lparr>row = 3, message = m\<rparr> = entry 2 m"
    and e2: "\<lparr>row = 2, message = m\<rparr> = entry 1 m"
    and e1: "\<lparr>row = 1, message = m\<rparr> = entry 0 m" for m
    by (simp_all add: entry_def)
  show ?thesis
    unfolding e3 e2 e1
    using third first second both len by blast
qed

theorem duplicates_A_B_A_witness:
  "map_of (student_row ''A'' ''Ann'' ''Lee'' ''ann@example.com'') ''student_id'' = Some ''A'' \<and>
   map_of (student_row ''B'' ''Bob'' ''Orr'' ''bob@example.com'') ''student_id'' = Some ''B'' \<and>
   map_of (student_row ''A'' ''Cid'' ''Ray'' ''cid@example.com'') ''student_id'' = Some ''A'' \<and>
   JStr ''B'' \<in> ({JStr ''B''} :: int jsval set) \<and>
   \<lparr>row = 3, message = duplicate_in_file_message 2 ''A''\<rparr>
     \<in> set (validateStudentData
           [student_row ''A'' ''Ann'' ''Lee'' ''ann@example.com'',
            student_row ''B'' ''Bob'' ''Orr'' ''bob@example.com'',
            student_row ''A'' ''Cid'' ''Ray'' ''cid@example.com''] ({JStr ''B''} :: int jsval set)) \<and>
   \<lparr>row = 2, message = already_exists_message 1 ''B''\<rparr>
     \<in> set (validateStudentData
           [student_row ''A'' ''Ann'' ''Lee'' ''ann@example.com'',
            student_row ''B'' ''Bob'' ''Orr'' ''bob@example.com'',
            student_row ''A'' ''Cid'' ''Ray'' ''cid@example.com''] ({JStr ''B''} :: int jsval set)) \<and>
   JStr ''A'' \<in> ({JStr ''A'', JStr ''B''} :: int jsval set) \<and>
   \<lparr>row = 3, message = already_exists_message 2 ''A''\<rparr>
     \<in> set (validateStudentData
           [student_row ''A'' ''Ann'' ''Lee'' ''ann@example.com'',
            student_row ''B'' ''Bob'' ''Orr'' ''bob@example.com'',
            student_row ''A'' ''Cid'' ''Ray'' ''cid@example.com'']
           ({JStr ''A'', JStr ''B''} :: int jsval set))"
proof -
  let ?r1 = "student_row ''A'' ''Ann'' ''Lee'' ''ann@example.com''"
  let ?r2 = "student_row ''B'' ''Bob'' ''Orr'' ''bob@example.com''"
  let ?r3 = "student_row ''A'' ''Cid'' ''Ray'' ''cid@example.com''"
  have i1: "map_of ?r1 ''student_id'' = Some ''A''"
    and i2: "map_of ?r2 ''student_id'' = Some ''B''"
    and i3: "map_of ?r3 ''student_id'' = Some ''A''"
    by (simp_all add: student_row_def)
  have na: "''A'' \<noteq> []" and nb: "''B'' \<noteq> []" by simp_all
  have b1: "JStr ''B'' \<in> ({JStr ''B''} :: int jsval set)" by simp
  have b2: "JStr ''B'' \<in> ({JStr ''A'', JStr ''B''} :: int jsval set)" by simp
  have a2: "JStr ''A'' \<in> ({JStr ''A'', JStr ''B''} :: int jsval set)" by simp
  note only_b = duplicates_A_B_A [OF i1 i2 i3 na nb b1]
  note both = duplicates_A_B_A [OF i1 i2 i3 na nb b2]
  from only_b have third: "\<lparr>row = 3, message = duplicate_in_file_message 2 ''A''\<rparr>
     \<in> set (validateStudentData [?r1, ?r2, ?r3] ({JStr ''B''} :: int jsval set))"
    by (rule conjunct1)
  from only_b have second: "\<lparr>row = 2, message = already_exists_message 1 ''B''\<rparr>
     \<in> set (validateStudentData [?r1, ?r2, ?r3] ({JStr ''B''} :: int jsval set))"
    by (elim conjE)
  from both a2 have third_too: "\<lparr>row = 3, message = already_exists_message 2 ''A''\<rparr>
     \<in> set (validateStudentData [?r1, ?r2, ?r3] ({JStr ''A'', JStr ''B''} :: int jsval set))"
    by (elim conjE impE)
  show ?thesis
    by (intro conjI i1 i2 i3 b1 third second a2 third_too)
qed

text \<open>
  Claim C10. A row whose \<^verbatim>\<open>student_id\<close> is missing or empty gets neither a duplicate-in-file
  error nor an "already exists" error, whatever the other rows and the store hold;
  \<^verbatim>\<open>student_id\<close> is not a required field; and such a row can pass validation with no error
  at all, both when the column is absent and when its cell is empty.
\<close>

theorem no_identifier_no_duplicate_check:
  "(i < length rows \<and>
      (map_of (rows ! i) ''student_id'' = None \<or> map_of (rows ! i) ''student_id'' = Some []) \<longrightarrow>
      (\<forall>sid. \<lparr>row = i + 1, message = duplicate_in_file_message i sid\<rparr>
                \<notin> set (validateStudentData rows existingIds) \<and>
             \<lparr>row = i + 1, message = already_exists_message i sid\<rparr>
                \<notin> set (validateStudentData rows existingIds))) \<and>
   ''student_id'' \<notin> set requiredFields \<and>
   validateStudentData
     [[(''first_name'', ''Ann''), (''last_name'', ''Lee''), (''student_email'', ''ann@example.com''),
       (''program_id'', ''1''), (''center_id'', ''2'')]] existingIds = [] \<and>
   validateStudentData [student_row [] ''Ann'' ''Lee'' ''ann@example.com''] existingIds = []"
proof (intro conjI impI allI)
  fix sid
  assume a: "i < length rows \<and>
      (map_of (rows ! i) ''student_id'' = None \<or> map_of (rows ! i) ''student_id'' = Some [])"
  then have none: "row_identifier (rows ! i) = None"
    by (simp add: row_identifier_None)
  from a have i: "i < length rows" by simp
  show "\<lparr>row = i + 1, message = duplicate_in_file_message i sid\<rparr>
          \<notin> set (validateStudentData rows existingIds)"
    unfolding entry_record
    by (simp add: in_validate_iff [OF i] duplicate_entry_iff none)
  show "\<lparr>row = i + 1, message = already_exists_message i sid\<rparr>
          \<notin> set (validateStudentData rows existingIds)"
    unfolding entry_record
    by (simp add: in_validate_iff [OF i] exists_entry_iff none)
next
  show "''student_id'' \<notin> set requiredFields"
    by (simp add: requiredFields_def)
next
  show "validateStudentData
     [[(''first_name'', ''Ann''), (''last_name'', ''Lee''), (''student_email'', ''ann@example.com''),
       (''program_id'', ''1''), (''center_id'', ''2'')]] existingIds = []"
    by (simp add: validate_eq_rules rule_defs string_defs)
next
  show "validateStudentData [student_row [] ''Ann'' ''Lee'' ''ann@example.com''] existingIds = []"
    by (simp add: validate_eq_rules rule_defs string_defs student_row_def)
qed

theorem no_identifier_no_duplicate_check_witness:
  "(1::nat) < length [student_row [] ''Ann'' ''Lee'' ''ann@example.com'',
                      student_row [] ''Bob'' ''Orr'' ''bob@example.com''] \<and>
   map_of ([student_row [] ''Ann'' ''Lee'' ''ann@example.com'',
            student_row [] ''Bob'' ''Orr'' ''bob@example.com''] ! 1) ''student_id'' = Some [] \<and>
   \<lparr>row = 1 + 1, message = duplicate_in_file_message 1 []\<rparr>
     \<notin> set (validateStudentData
           [student_row [] ''Ann'' ''Lee'' ''ann@example.com'',
            student_row [] ''Bob'' ''Orr'' ''bob@example.com''] ({JStr []} :: int jsval set)) \<and>
   \<lparr>row = 1 + 1, message = already_exists_message 1 []\<rparr>
     \<notin> set (validateStudentData
           [student_row [] ''Ann'' ''Lee'' ''ann@example.com'',
            student_row [] ''Bob'' ''Orr'' ''bob@example.com''] ({JStr []} :: int jsval set)) \<and>
   (0::nat) < length [[(''first_name'', ''Ann'')]] \<and>
   map_of ([[(''first_name'', ''Ann'')]] ! 0) ''student_id'' = None \<and>
   \<lparr>row = 0 + 1, message = already_exists_message 0 []\<rparr>
     \<notin> set (validateStudentData [[(''first_name'', ''Ann'')]] ({JStr []} :: int jsval set))"
proof -
  let ?rows = "[student_row [] ''Ann'' ''Lee'' ''ann@example.com'',
                student_row [] ''Bob'' ''Orr'' ''bob@example.com'']"
  let ?ex = "{JStr []} :: int jsval set"
  let ?bare = "[[(''first_name'', ''Ann'')]] :: raw_row list"
  have len: "(1::nat) < length ?rows" by simp
  have empty: "map_of (?rows ! 1) ''student_id'' = Some []"
    by (simp add: student_row_def)
  have len0: "(0::nat) < length ?bare" by simp
  have absent: "map_of (?bare ! 0) ''student_id'' = None" by simp
  note skipped = no_identifier_no_duplicate_check [of 1 ?rows ?ex, THEN conjunct1]
  have "\<forall>sid. \<lparr>row = 1 + 1, message = duplicate_in_file_message 1 sid\<rparr>
          \<notin> set (validateStudentData ?rows ?ex) \<and>
        \<lparr>row = 1 + 1, message = already_exists_message 1 sid\<rparr>
          \<notin> set (validateStudentData ?rows ?ex)"
    by (rule mp [OF skipped]) (intro conjI disjI2 len empty)
  then have e1: "\<lparr>row = 1 + 1, message = duplicate_in_file_message 1 []\<rparr>
          \<notin> set (validateStudentData ?rows ?ex)"
    and e2: "\<lparr>row = 1 + 1, message = already_exists_message 1 []\<rparr>
          \<notin> set (validateStudentData ?rows ?ex)"
    by blast+
  note skipped0 = no_identifier_no_duplicate_check [of 0 ?bare ?ex, THEN conjunct1]
  have "\<forall>sid. \<lparr>row = 0 + 1, message = duplicate_in_file_message 0 sid\<rparr>
          \<notin> set (validateStudentData ?bare ?ex) \<and>
        \<lparr>row = 0 + 1, message = already_exists_message 0 sid\<rparr>
          \<notin> set (validateStudentData ?bare ?ex)"
    by (rule mp [OF skipped0]) (intro conjI disjI1 len0 absent)
  then have e3: "\<lparr>row = 0 + 1, message = already_exists_message 0 []\<rparr>
          \<notin> set (validateStudentData ?bare ?ex)"
    by blast
  show ?thesis
    by (intro conjI len empty e1 e2 len0 absent e3)
qed

subsection \<open>Row numbers in the result\<close>

lemma sorted_constant: "\<forall>x \<in> set xs. x = c \<Longrightarrow> sorted xs" for c :: nat
  by (induction xs) simp_all

lemma rows_of_block: "x \<in> set (map row (rules_for_row ex earlier i r)) \<Longrightarrow> x = i + 1"
proof -
  assume "x \<in> set (map row (rules_for_row ex earlier i r))"
  then obtain e where "e \<in> set (rules_for_row ex earlier i r)" and "x = row e"
    by (auto simp add: image_iff)
  then show ?thesis by (simp add: row_of_rules)
qed


lemma rows_of_later:
  assumes "e \<in> set (concat (map (\<lambda>(i, r). rules_for_row ex (take i allrows) i r) (enumerate m rs)))"
  shows "m + 1 \<le> row e"
proof -
  from assms obtain p where p: "p \<in> set (enumerate m rs)"
    and e: "e \<in> set ((\<lambda>(i, r). rules_for_row ex (take i allrows) i r) p)"
    by auto
  obtain i r' where pair: "p = (i, r')" by (cases p)
  from p pair have "m \<le> i" by (simp add: in_set_enumerate_eq)
  moreover from e pair have "row e = i + 1" by (simp add: row_of_rules)
  ultimately show ?thesis by simp
qed

lemma sorted_rows_from:
  "sorted (map row (concat (map (\<lambda>(i, r). rules_for_row ex (take i allrows) i r) (enumerate n rs))))"
proof (induction rs arbitrary: n)
  case Nil
  then show ?case by simp
next
  case (Cons r rs)
  let ?f = "\<lambda>(i, r). rules_for_row ex (take i allrows) i r"
  let ?head = "map row (rules_for_row ex (take n allrows) n r)"
  let ?tail = "map row (concat (map ?f (enumerate (Suc n) rs)))"
  have head: "sorted ?head"
    by (rule sorted_constant [where c = "n + 1"]) (simp add: row_of_rules)
  have tail: "sorted ?tail"
    by (rule Cons.IH)
  have cross: "x \<le> y" if "x \<in> set ?head" and "y \<in> set ?tail" for x y
  proof -
    from that(1) have x: "x = n + 1" by (rule rows_of_block)
    from that(2) obtain e where "e \<in> set (concat (map ?f (enumerate (Suc n) rs)))" and "y = row e"
      by (auto simp add: image_iff)
    then have "Suc n + 1 \<le> y" using rows_of_later [of e ex allrows "Suc n" rs] by simp
    with x show ?thesis by simp
  qed
  have "sorted (?head @ ?tail)"
    unfolding sorted_append using head tail cross by blast
  then show ?case by simp
qed

lemma sorted_rows: "sorted (map row (validateStudentData rows ex))"
  using sorted_rows_from [of ex rows 0 rows]
  by (simp add: validate_eq_rules validate_by_rules_def)

lemma earlier_identifier:
  assumes "j < i" and "i < length rows" and "row_identifier (rows ! j) = Some sid"
  shows "Some sid \<in> set (map row_identifier (take i rows))"
proof -
  from assms have "j < length (take i rows)" by simp
  then have "take i rows ! j \<in> set (take i rows)" by (rule nth_mem)
  moreover from assms have "take i rows ! j = rows ! j" by simp
  ultimately have "rows ! j \<in> set (take i rows)" by simp
  then have "row_identifier (rows ! j) \<in> set (map row_identifier (take i rows))" by simp
  with assms(3) show ?thesis by simp
qed

subsection \<open>Every rule on every row\<close>

text \<open>
  Claim C4, as amended. The validator applies every rule it has to every row, none cutting
  another short: its result is the concatenation, rows in file order (the row numbers never
  decrease) and, within a row, rules in the order required fields, duplicate in file, already
  in store, student email, parents email, numeric fields, of what each rule emits on its own.
  So for every row every violated rule has its entry in the result, where the numeric rule is
  over the validator's six numeric fields: a column that only coercion designates numeric
  (\<^verbatim>\<open>student_id\<close>, \<^verbatim>\<open>enrollment_year\<close>) never gets a numeric error. In particular a row with a
  missing required field and a repeated identifier has both entries, and they differ.
\<close>

theorem validator_applies_every_rule:
  "validateStudentData rows existingIds = validate_by_rules rows existingIds \<and>
   sorted (map row (validateStudentData rows existingIds)) \<and>
   (i < length rows \<longrightarrow>
      (\<forall>f \<in> set requiredFields. missing_or_blank (rows ! i) f \<longrightarrow>
         \<lparr>row = i + 1, message = missing_required_message i f\<rparr>
           \<in> set (validateStudentData rows existingIds)) \<and>
      (\<forall>sid. map_of (rows ! i) ''student_id'' = Some sid \<and> sid \<noteq> [] \<and>
             (\<exists>j<i. map_of (rows ! j) ''student_id'' = Some sid) \<longrightarrow>
         \<lparr>row = i + 1, message = duplicate_in_file_message i sid\<rparr>
           \<in> set (validateStudentData rows existingIds)) \<and>
      (\<forall>sid. map_of (rows ! i) ''student_id'' = Some sid \<and> sid \<noteq> [] \<and> JStr sid \<in> existingIds \<longrightarrow>
         \<lparr>row = i + 1, message = already_exists_message i sid\<rparr>
           \<in> set (validateStudentData rows existingIds)) \<and>
      (\<forall>f v. (f = ''student_email'' \<or> f = ''parents_email'') \<and> map_of (rows ! i) f = Some v \<and>
             v \<noteq> [] \<and> \<not> re_test email_regex v \<longrightarrow>
         \<lparr>row = i + 1, message = invalid_email_message i f\<rparr>
           \<in> set (validateStudentData rows existingIds)) \<and>
      (\<forall>f \<in> set numericFields. not_numeric (rows ! i) f \<longrightarrow>
         \<lparr>row = i + 1, message = invalid_numeric_message i f\<rparr>
           \<in> set (validateStudentData rows existingIds)) \<and>
      (\<forall>f \<in> set numeric_columns. f \<notin> set numericFields \<longrightarrow>
         \<lparr>row = i + 1, message = invalid_numeric_message i f\<rparr>
           \<notin> set (validateStudentData rows existingIds)) \<and>
      (\<forall>f sid. missing_required_message i f \<noteq> duplicate_in_file_message i sid))"
proof (intro conjI impI ballI allI)
  show "validateStudentData rows existingIds = validate_by_rules rows existingIds"
    by (rule validate_eq_rules)
  show "sorted (map row (validateStudentData rows existingIds))"
    by (rule sorted_rows)
next
  fix f assume i: "i < length rows" and "f \<in> set requiredFields" "missing_or_blank (rows ! i) f"
  then show "\<lparr>row = i + 1, message = missing_required_message i f\<rparr>
           \<in> set (validateStudentData rows existingIds)"
    unfolding entry_record by (simp add: in_validate_iff missing_entry_iff)
next
  fix sid assume i: "i < length rows"
    and h: "map_of (rows ! i) ''student_id'' = Some sid \<and> sid \<noteq> [] \<and>
             (\<exists>j<i. map_of (rows ! j) ''student_id'' = Some sid)"
  then obtain j where "j < i" "row_identifier (rows ! j) = Some sid"
    by (auto simp add: row_identifier_Some)
  with i have "Some sid \<in> set (map row_identifier (take i rows))"
    using earlier_identifier [of j i rows sid] by simp
  with i h show "\<lparr>row = i + 1, message = duplicate_in_file_message i sid\<rparr>
           \<in> set (validateStudentData rows existingIds)"
    unfolding entry_record
    by (simp add: in_validate_iff duplicate_entry_iff row_identifier_Some)
next
  fix sid assume i: "i < length rows"
    and h: "map_of (rows ! i) ''student_id'' = Some sid \<and> sid \<noteq> [] \<and> JStr sid \<in> existingIds"
  then show "\<lparr>row = i + 1, message = already_exists_message i sid\<rparr>
           \<in> set (validateStudentData rows existingIds)"
    unfolding entry_record
    by (simp add: in_validate_iff exists_entry_iff row_identifier_Some)
next
  fix f v assume i: "i < length rows"
    and h: "(f = ''student_email'' \<or> f = ''parents_email'') \<and> map_of (rows ! i) f = Some v \<and>
             v \<noteq> [] \<and> \<not> re_test email_regex v"
  then have "entry i (invalid_email_message i f)
      \<in> set (rules_for_row existingIds (take i rows) i (rows ! i))"
    using email_entry_iff [of f i existingIds "take i rows" "rows ! i"] by blast
  with i show "\<lparr>row = i + 1, message = invalid_email_message i f\<rparr>
           \<in> set (validateStudentData rows existingIds)"
    unfolding entry_record by (simp add: in_validate_iff)
next
  fix f assume i: "i < length rows" and "f \<in> set numericFields" "not_numeric (rows ! i) f"
  then show "\<lparr>row = i + 1, message = invalid_numeric_message i f\<rparr>
           \<in> set (validateStudentData rows existingIds)"
    unfolding entry_record by (simp add: in_validate_iff numeric_entry_iff)
next
  fix f assume i: "i < length rows" and "f \<in> set numeric_columns" "f \<notin> set numericFields"
  then show "\<lparr>row = i + 1, message = invalid_numeric_message i f\<rparr>
           \<notin> set (validateStudentData rows existingIds)"
    unfolding entry_record by (simp add: in_validate_iff numeric_entry_iff)
next
  fix f sid
  show "missing_required_message i f \<noteq> duplicate_in_file_message i sid"
    by (simp add: message_defs)
qed

theorem validator_applies_every_rule_witness:
  "(1::nat) < length [student_row ''101'' ''Ann'' ''Lee'' ''ann@example.com'',
                      [(''first_name'', ''Bob''), (''last_name'', '' ''), (''student_id'', ''101''),
                       (''student_email'', ''bob@example''), (''program_id'', ''abc''),
                       (''center_id'', ''2''), (''enrollment_year'', ''abc'')]] \<and>
   \<lparr>row = 1 + 1, message = missing_required_message 1 ''last_name''\<rparr>
     \<in> set (validateStudentData
           [student_row ''101'' ''Ann'' ''Lee'' ''ann@example.com'',
            [(''first_name'', ''Bob''), (''last_name'', '' ''), (''student_id'', ''101''),
             (''student_email'', ''bob@example''), (''program_id'', ''abc''),
             (''center_id'', ''2''), (''enrollment_year'', ''abc'')]] ({JStr ''101''} :: int jsval set)) \<and>
   \<lparr>row = 1 + 1, message = duplicate_in_file_message 1 ''101''\<rparr>
     \<in> set (validateStudentData
           [student_row ''101'' ''Ann'' ''Lee'' ''ann@example.com'',
            [(''first_name'', ''Bob''), (''last_name'', '' ''), (''student_id'', ''101''),
             (''student_email'', ''bob@example''), (''program_id'', ''abc''),
             (''center_id'', ''2''), (''enrollment_year'', ''abc'')]] ({JStr ''101''} :: int jsval set)) \<and>
   \<lparr>row = 1 + 1, message = already_exists_message 1 ''101''\<rparr>
     \<in> set (validateStudentData
           [student_row ''101'' ''Ann'' ''Lee'' ''ann@example.com'',
            [(''first_name'', ''Bob''), (''last_name'', '' ''), (''student_id'', ''101''),
             (''student_email'', ''bob@example''), (''program_id'', ''abc''),
             (''center_id'', ''2''), (''enrollment_year'', ''abc'')]] ({JStr ''101''} :: int jsval set)) \<and>
   \<lparr>row = 1 + 1, message = invalid_email_message 1 ''student_email''\<rparr>
     \<in> set (validateStudentData
           [student_row ''101'' ''Ann'' ''Lee'' ''ann@example.com'',
            [(''first_name'', ''Bob''), (''last_name'', '' ''), (''student_id'', ''101''),
             (''student_email'', ''bob@example''), (''program_id'', ''abc''),
             (''center_id'', ''2''), (''enrollment_year'', ''abc'')]] ({JStr ''101''} :: int jsval set)) \<and>
   \<lparr>row = 1 + 1, message = invalid_numeric_message 1 ''program_id''\<rparr>
     \<in> set (validateStudentData
           [student_row ''101'' ''Ann'' ''Lee'' ''ann@example.com'',
            [(''first_name'', ''Bob''), (''last_name'', '' ''), (''student_id'', ''101''),
             (''student_email'', ''bob@example''), (''program_id'', ''abc''),
             (''center_id'', ''2''), (''enrollment_year'', ''abc'')]] ({JStr ''101''} :: int jsval set)) \<and>
   ''enrollment_year'' \<in> set numeric_columns \<and> ''enrollment_year'' \<notin> set numericFields \<and>
   \<lparr>row = 1 + 1, message = invalid_numeric_message 1 ''enrollment_year''\<rparr>
     \<notin> set (validateStudentData
           [student_row ''101'' ''Ann'' ''Lee'' ''ann@example.com'',
            [(''first_name'', ''Bob''), (''last_name'', '' ''), (''student_id'', ''101''),
             (''student_email'', ''bob@example''), (''program_id'', ''abc''),
             (''center_id'', ''2''), (''enrollment_year'', ''abc'')]] ({JStr ''101''} :: int jsval set))"
proof -
  let ?bad = "[(''first_name'', ''Bob''), (''last_name'', '' ''), (''student_id'', ''101''),
               (''student_email'', ''bob@example''), (''program_id'', ''abc''),
               (''center_id'', ''2''), (''enrollment_year'', ''abc'')]"
  let ?rows = "[student_row ''101'' ''Ann'' ''Lee'' ''ann@example.com'', ?bad]"
  let ?ex = "{JStr ''101''} :: int jsval set"
  have len: "(1::nat) < length ?rows" by simp
  have at: "?rows ! 1 = ?bad" by simp
  have req: "''last_name'' \<in> set requiredFields" by (simp add: requiredFields_def)
  have blank: "missing_or_blank (?rows ! 1) ''last_name''"
    unfolding at by (simp add: missing_or_blank_def trim_def is_js_space_def)
  have dup: "map_of (?rows ! 1) ''student_id'' = Some ''101'' \<and> ''101'' \<noteq> [] \<and>
      (\<exists>j<1. map_of (?rows ! j) ''student_id'' = Some ''101'')"
    by (simp add: student_row_def)
  have stored: "map_of (?rows ! 1) ''student_id'' = Some ''101'' \<and> ''101'' \<noteq> [] \<and>
      JStr ''101'' \<in> ?ex"
    by simp
  have email: "(''student_email'' = ''student_email'' \<or> ''student_email'' = ''parents_email'') \<and>
      map_of (?rows ! 1) ''student_email'' = Some ''bob@example'' \<and> ''bob@example'' \<noteq> [] \<and>
      \<not> re_test email_regex ''bob@example''"
    by (simp add: email_regex_def not_space_at_def is_js_space_def)
  have num: "''program_id'' \<in> set numericFields" by (simp add: numericFields_def)
  have nan: "not_numeric (?rows ! 1) ''program_id''"
    unfolding at by (simp add: not_numeric_def string_defs)
  note all = validator_applies_every_rule [of ?rows ?ex 1, THEN conjunct2, THEN conjunct2,
      THEN mp, OF len]
  from all req blank
  have e1: "\<lparr>row = 1 + 1, message = missing_required_message 1 ''last_name''\<rparr>
      \<in> set (validateStudentData ?rows ?ex)"
    by blast
  from all dup
  have e2: "\<lparr>row = 1 + 1, message = duplicate_in_file_message 1 ''101''\<rparr>
      \<in> set (validateStudentData ?rows ?ex)"
    by blast
  from all stored
  have e3: "\<lparr>row = 1 + 1, message = already_exists_message 1 ''101''\<rparr>
      \<in> set (validateStudentData ?rows ?ex)"
    by blast
  from all email
  have e4: "\<lparr>row = 1 + 1, message = invalid_email_message 1 ''student_email''\<rparr>
      \<in> set (validateStudentData ?rows ?ex)"
    by blast
  from all num nan
  have e5: "\<lparr>row = 1 + 1, message = invalid_numeric_message 1 ''program_id''\<rparr>
      \<in> set (validateStudentData ?rows ?ex)"
    by blast
  have designated: "''enrollment_year'' \<in> set numeric_columns"
    by (simp add: numeric_columns_def)
  have left_out: "''enrollment_year'' \<notin> set numericFields"
    by (simp add: numericFields_def)
  from all designated left_out
  have e6: "\<lparr>row = 1 + 1, message = invalid_numeric_message 1 ''enrollment_year''\<rparr>
      \<notin> set (validateStudentData ?rows ?ex)"
    by blast
  show ?thesis
    by (intro conjI len e1 e2 e3 e4 e5 designated left_out e6)
qed

text \<open>
  The claim as first stated, every violated rule of the specification in the result, fails on
  the numeric-shape rule: the row below has \<^verbatim>\<open>abc\<close> in \<^verbatim>\<open>enrollment_year\<close>, a column designated
  numeric, so the rules of the specification emit a type error for it, and the validator
  returns no error at all.
\<close>

theorem unchecked_numeric_column_counterexample:
  "validate_as_specified
     [student_row ''101'' ''Ann'' ''Lee'' ''ann@example.com'' @ [(''enrollment_year'', ''abc'')]]
     ({} :: int jsval set) =
     [\<lparr>row = 1, message = invalid_numeric_message 0 ''enrollment_year''\<rparr>] \<and>
   validateStudentData
     [student_row ''101'' ''Ann'' ''Lee'' ''ann@example.com'' @ [(''enrollment_year'', ''abc'')]]
     ({} :: int jsval set) = []"
proof
  show "validate_as_specified
     [student_row ''101'' ''Ann'' ''Lee'' ''ann@example.com'' @ [(''enrollment_year'', ''abc'')]]
     ({} :: int jsval set) =
     [\<lparr>row = 1, message = invalid_numeric_message 0 ''enrollment_year''\<rparr>]"
    by (simp add: validate_as_specified_def specified_rules_for_row_def numeric_shape_rule_def
        numeric_columns_def required_field_rule_def intra_file_duplicate_rule_def
        cross_store_duplicate_rule_def format_rule_def row_identifier_def requiredFields_def
        missing_or_blank_def not_numeric_def string_defs student_row_def entry_def)
  show "validateStudentData
     [student_row ''101'' ''Ann'' ''Lee'' ''ann@example.com'' @ [(''enrollment_year'', ''abc'')]]
     ({} :: int jsval set) = []"
    by (simp add: validate_eq_rules rule_defs string_defs student_row_def)
qed


subsection \<open>The email format rule\<close>

text \<open>
  Claim C8. For \<^verbatim>\<open>student_email\<close> and for \<^verbatim>\<open>parents_email\<close>, each on its own, a non-empty cell gets
  a format error on its row exactly when it does not match the pattern local@domain.tld;
  \<^verbatim>\<open>bob@example\<close> does not match and \<^verbatim>\<open>bob@example.com\<close> does.
\<close>

theorem email_format_rule:
  "(i < length rows \<and> (field = ''student_email'' \<or> field = ''parents_email'') \<and>
      map_of (rows ! i) field = Some v \<and> v \<noteq> [] \<longrightarrow>
      (\<lparr>row = i + 1, message = invalid_email_message i field\<rparr>
          \<in> set (validateStudentData rows existingIds) \<longleftrightarrow>
       \<not> re_test email_regex v)) \<and>
   \<not> re_test email_regex ''bob@example'' \<and>
   re_test email_regex ''bob@example.com''"
proof (intro conjI impI)
  assume h: "i < length rows \<and> (field = ''student_email'' \<or> field = ''parents_email'') \<and>
      map_of (rows ! i) field = Some v \<and> v \<noteq> []"
  then have i: "i < length rows" and f: "field = ''student_email'' \<or> field = ''parents_email''"
    by simp_all
  show "\<lparr>row = i + 1, message = invalid_email_message i field\<rparr>
          \<in> set (validateStudentData rows existingIds) \<longleftrightarrow>
       \<not> re_test email_regex v"
    unfolding entry_record using h
    by (simp add: in_validate_iff [OF i] email_entry_iff [OF f])
next
  show "\<not> re_test email_regex ''bob@example''"
    by (simp add: email_regex_def not_space_at_def is_js_space_def)
  show "re_test email_regex ''bob@example.com''"
    by (simp add: email_regex_def not_space_at_def is_js_space_def)
qed



theorem email_format_rule_witness:
  "(0::nat) < length [student_row ''101'' ''Ann'' ''Lee'' ''ann@example.com'' @
                      [(''parents_email'', ''pa@example'')]] \<and>
   map_of ([student_row ''101'' ''Ann'' ''Lee'' ''ann@example.com'' @
            [(''parents_email'', ''pa@example'')]] ! 0) ''parents_email'' = Some ''pa@example'' \<and>
   \<not> re_test email_regex ''pa@example'' \<and>
   \<lparr>row = 0 + 1, message = invalid_email_message 0 ''parents_email''\<rparr>
     \<in> set (validateStudentData
          [student_row ''101'' ''Ann'' ''Lee'' ''ann@example.com'' @
           [(''parents_email'', ''pa@example'')]] ({} :: int jsval set)) \<and>
   map_of ([student_row ''101'' ''Ann'' ''Lee'' ''ann@example.com'' @
            [(''parents_email'', ''pa@example'')]] ! 0) ''student_email'' = Some ''ann@example.com'' \<and>
   re_test email_regex ''ann@example.com'' \<and>
   \<lparr>row = 0 + 1, message = invalid_email_message 0 ''student_email''\<rparr>
     \<notin> set (validateStudentData
          [student_row ''101'' ''Ann'' ''Lee'' ''ann@example.com'' @
           [(''parents_email'', ''pa@example'')]] ({} :: int jsval set))"
proof -
  let ?rows = "[student_row ''101'' ''Ann'' ''Lee'' ''ann@example.com'' @
                [(''parents_email'', ''pa@example'')]]"
  let ?ex = "{} :: int jsval set"
  have len: "(0::nat) < length ?rows" by simp
  have p: "map_of (?rows ! 0) ''parents_email'' = Some ''pa@example''"
    by (simp add: student_row_def)
  have s: "map_of (?rows ! 0) ''student_email'' = Some ''ann@example.com''"
    by (simp add: student_row_def)
  have bad: "\<not> re_test email_regex ''pa@example''"
    by (simp add: email_regex_def not_space_at_def is_js_space_def)
  have good: "re_test email_regex ''ann@example.com''"
    by (simp add: email_regex_def not_space_at_def is_js_space_def)
  have np: "''pa@example'' \<noteq> []" and ns: "''ann@example.com'' \<noteq> []" by simp_all
  note parents = email_format_rule [of 0 ?rows "''parents_email''" "''pa@example''" ?ex,
      THEN conjunct1]
  have "\<lparr>row = 0 + 1, message = invalid_email_message 0 ''parents_email''\<rparr>
          \<in> set (validateStudentData ?rows ?ex) \<longleftrightarrow> \<not> re_test email_regex ''pa@example''"
    by (rule mp [OF parents]) (intro conjI disjI2 len p np refl)
  with bad have e1: "\<lparr>row = 0 + 1, message = invalid_email_message 0 ''parents_email''\<rparr>
          \<in> set (validateStudentData ?rows ?ex)"
    by blast
  note student = email_format_rule [of 0 ?rows "''student_email''" "''ann@example.com''" ?ex,
      THEN conjunct1]
  have "\<lparr>row = 0 + 1, message = invalid_email_message 0 ''student_email''\<rparr>
          \<in> set (validateStudentData ?rows ?ex) \<longleftrightarrow> \<not> re_test email_regex ''ann@example.com''"
    by (rule mp [OF student]) (intro conjI disjI1 len s ns refl)
  with good have e2: "\<lparr>row = 0 + 1, message = invalid_email_message 0 ''student_email''\<rparr>
          \<notin> set (validateStudentData ?rows ?ex)"
    by blast
  show ?thesis
    by (intro conjI len p bad e1 s good e2)
qed

subsection \<open>What coercion stores under a key\<close>

lemma coerce_entries_snoc:
  "coerce_entries rt (r @ [(k, v)]) = AList.update k (coerce_cell rt k v) (coerce_entries rt r)"
  by (simp add: coerce_entries_def)

lemma coerce_entries_Nil: "coerce_entries rt [] = []"
  by (simp add: coerce_entries_def)

lemma map_of_coerce_entries:
  "distinct (map fst r) \<Longrightarrow>
     map_of (coerce_entries rt r) k = map_option (coerce_cell rt k) (map_of r k)"
proof (induction r rule: rev_induct)
  case Nil
  then show ?case by (simp add: coerce_entries_Nil)
next
  case (snoc p r)
  obtain k' v' where p: "p = (k', v')" by (cases p)
  from snoc.prems p have d: "distinct (map fst r)" and fresh: "k' \<notin> fst ` set r"
    by simp_all
  from fresh have none: "map_of r k' = None"
    by (simp add: map_of_eq_None_iff)
  show ?case
  proof (cases "k = k'")
    case True
    then show ?thesis
      by (simp add: p coerce_entries_snoc update_conv' map_add_def none)
  next
    case False
    then show ?thesis
      using snoc.IH [OF d]
      by (simp add: p coerce_entries_snoc update_conv' map_add_def split: option.splits)
  qed
qed

lemma map_of_coerce_entries_cases:
  "map_of (coerce_entries rt r) k = None \<or>
   (\<exists>v. map_of (coerce_entries rt r) k = Some (coerce_cell rt k v))"
proof (induction r rule: rev_induct)
  case Nil
  then show ?case by (simp add: coerce_entries_Nil)
next
  case (snoc p r)
  obtain k' v' where p: "p = (k', v')" by (cases p)
  show ?case
  proof (cases "k = k'")
    case True
    then show ?thesis
      by (auto simp add: p coerce_entries_snoc update_conv')
  next
    case False
    then show ?thesis
      using snoc.IH by (simp add: p coerce_entries_snoc update_conv')
  qed
qed

lemma process_row_other_key:
  "k \<noteq> ''created_at'' \<Longrightarrow> map_of (process_row rt now r) k = map_of (coerce_entries rt r) k"
  by (simp add: process_row_def Let_def update_conv')

lemma coerce_cell_created_at:
  "coerce_cell rt ''created_at'' v = (if v = [] then JNull else coerce_date rt v)"
  by (simp add: coerce_cell_def numeric_columns_def array_columns_def)

lemma coerce_date_string:
  "\<forall>t. toISOString rt t \<noteq> [] \<Longrightarrow> v \<noteq> [] \<Longrightarrow> \<exists>s. coerce_date rt v = JStr s \<and> s \<noteq> []"
  by (cases "Date_parse rt v") (simp_all add: coerce_date_def)

lemma created_at_after_coercion:
  assumes "\<forall>t. toISOString rt t \<noteq> []"
  shows "falsy rt (map_of (coerce_entries rt r) ''created_at'') \<or>
         (\<exists>s. map_of (coerce_entries rt r) ''created_at'' = Some (JStr s) \<and> s \<noteq> [])"
proof -
  from map_of_coerce_entries_cases [of rt r "''created_at''"]
  show ?thesis
  proof
    assume "map_of (coerce_entries rt r) ''created_at'' = None"
    then show ?thesis by simp
  next
    assume "\<exists>v. map_of (coerce_entries rt r) ''created_at'' = Some (coerce_cell rt ''created_at'' v)"
    then obtain v where v: "map_of (coerce_entries rt r) ''created_at'' = Some (coerce_cell rt ''created_at'' v)"
      by blast
    show ?thesis
    proof (cases "v = []")
      case True
      with v show ?thesis by (simp add: coerce_cell_created_at)
    next
      case False
      with coerce_date_string [OF assms, of v] obtain s where "coerce_date rt v = JStr s" "s \<noteq> []"
        by blast
      with v False show ?thesis by (simp add: coerce_cell_created_at)
    qed
  qed
qed

lemma process_row_created_at:
  assumes "\<forall>t. toISOString rt t \<noteq> []"
  shows "\<exists>s. map_of (process_row rt now r) ''created_at'' = Some (JStr s) \<and> s \<noteq> []"
proof (cases "falsy rt (map_of (coerce_entries rt r) ''created_at'')")
  case True
  then show ?thesis
    using assms by (simp add: process_row_def Let_def update_conv')
next
  case False
  with created_at_after_coercion [OF assms, of r]
  show ?thesis by (simp add: process_row_def Let_def)
qed

lemma process_rows_created_at:
  assumes "\<forall>t. toISOString rt t \<noteq> []" and "x \<in> set (process_rows rt clk rows)"
  shows "\<exists>s. map_of x ''created_at'' = Some (JStr s) \<and> s \<noteq> []"
proof -
  from assms(2) obtain p where "p \<in> set (enumerate 0 rows)"
    and x: "x = (\<lambda>(i, r). process_row rt (clk i) r) p"
    by (auto simp add: process_rows_def)
  obtain i r where "p = (i, r)" by (cases p)
  with x have "x = process_row rt (clk i) r" by simp
  with process_row_created_at [OF assms(1)] show ?thesis by simp
qed

lemma includes_str_single: "includes_str v [c] \<longleftrightarrow> c \<in> set v"
  by (induction v) (auto simp add: startsWith_def)

lemma array_not_numeric: "key \<in> set array_columns \<Longrightarrow> key \<notin> set numeric_columns"
  by (auto simp add: array_columns_def numeric_columns_def)

lemma coerce_cell_array:
  "key \<in> set array_columns \<Longrightarrow> v \<noteq> [] \<Longrightarrow> coerce_cell rt key v = coerce_array rt v"
  by (simp add: coerce_cell_def array_not_numeric)

lemma process_row_cell:
  assumes "distinct (map fst r)" and "map_of r key = Some v" and "key \<noteq> ''created_at''"
  shows "map_of (process_row rt now r) key = Some (coerce_cell rt key v)"
  using assms by (simp add: process_row_other_key map_of_coerce_entries)

subsection \<open>Array columns\<close>

text \<open>
  Claim C7. For an array column (\<^verbatim>\<open>days_of_week\<close>, \<^verbatim>\<open>timings\<close>): the empty string becomes \<^verbatim>\<open>null\<close>,
  which is not the empty array; a string that starts with \<^verbatim>\<open>[\<close> and ends with \<^verbatim>\<open>]\<close> becomes what
  \<^verbatim>\<open>JSON.parse\<close> returns, or the one-element array of the string itself when \<^verbatim>\<open>JSON.parse\<close> throws;
  any other string with a comma is split at the commas and each piece trimmed, so that
  \<^verbatim>\<open>Monday, Wednesday\<close> becomes the array of \<^verbatim>\<open>Monday\<close> and \<^verbatim>\<open>Wednesday\<close>; any other non-empty string
  becomes a one-element array. This is what the coerced row holds under the key.
\<close>

theorem array_coercion:
  assumes "key \<in> set array_columns"
  shows "coerce_cell rt key [] = JNull \<and> JNull \<noteq> (JArr [] :: 'n jsval) \<and>
    (startsWith v ''['' \<and> endsWith v '']'' \<and> JSON_parse rt v = Some parsed \<longrightarrow>
       coerce_cell rt key v = parsed) \<and>
    (startsWith v ''['' \<and> endsWith v '']'' \<and> JSON_parse rt v = None \<longrightarrow>
       coerce_cell rt key v = JArr [JStr v]) \<and>
    (v \<noteq> [] \<and> \<not> (startsWith v ''['' \<and> endsWith v '']'') \<and> CHR '','' \<in> set v \<longrightarrow>
       coerce_cell rt key v = JArr (map (\<lambda>item. JStr (trim item)) (split_on (CHR '','') v))) \<and>
    (v \<noteq> [] \<and> \<not> (startsWith v ''['' \<and> endsWith v '']'') \<and> CHR '','' \<notin> set v \<longrightarrow>
       coerce_cell rt key v = JArr [JStr v]) \<and>
    coerce_cell rt key ''Monday, Wednesday'' = JArr [JStr ''Monday'', JStr ''Wednesday''] \<and>
    (distinct (map fst r) \<and> map_of r key = Some v \<longrightarrow>
       map_of (process_row rt now r) key = Some (coerce_cell rt key v))"
proof (intro conjI impI)
  show "coerce_cell rt key [] = JNull"
    by (simp add: coerce_cell_def)
  show "JNull \<noteq> (JArr [] :: 'n jsval)"
    by simp
next
  assume h: "startsWith v ''['' \<and> endsWith v '']'' \<and> JSON_parse rt v = Some parsed"
  then have "v \<noteq> []" by (auto simp add: startsWith_def)
  with assms h show "coerce_cell rt key v = parsed"
    by (simp add: coerce_cell_array coerce_array_def)
next
  assume h: "startsWith v ''['' \<and> endsWith v '']'' \<and> JSON_parse rt v = None"
  then have "v \<noteq> []" by (auto simp add: startsWith_def)
  with assms h show "coerce_cell rt key v = JArr [JStr v]"
    by (simp add: coerce_cell_array coerce_array_def)
next
  assume h: "v \<noteq> [] \<and> \<not> (startsWith v ''['' \<and> endsWith v '']'') \<and> CHR '','' \<in> set v"
  with assms show "coerce_cell rt key v = JArr (map (\<lambda>item. JStr (trim item)) (split_on (CHR '','') v))"
    by (auto simp add: coerce_cell_array coerce_array_def includes_str_single)
next
  assume h: "v \<noteq> [] \<and> \<not> (startsWith v ''['' \<and> endsWith v '']'') \<and> CHR '','' \<notin> set v"
  with assms show "coerce_cell rt key v = JArr [JStr v]"
    by (auto simp add: coerce_cell_array coerce_array_def includes_str_single)
next
  have "coerce_array rt ''Monday, Wednesday'' = JArr [JStr ''Monday'', JStr ''Wednesday'']"
    by (simp add: coerce_array_def startsWith_def endsWith_def trim_def is_js_space_def)
  with assms show "coerce_cell rt key ''Monday, Wednesday'' = JArr [JStr ''Monday'', JStr ''Wednesday'']"
    by (simp add: coerce_cell_array)
next
  assume h: "distinct (map fst r) \<and> map_of r key = Some v"
  from assms have "key \<noteq> ''created_at''"
    by (auto simp add: array_columns_def)
  with h show "map_of (process_row rt now r) key = Some (coerce_cell rt key v)"
    by (simp add: process_row_cell)
qed

theorem array_coercion_witness:
  "''days_of_week'' \<in> set array_columns \<and>
   startsWith ''[1,2]'' ''['' \<and> endsWith ''[1,2]'' '']'' \<and>
   JSON_parse example_runtime ''[1,2]'' = Some (JArr [JNum 1, JNum 2]) \<and>
   coerce_cell example_runtime ''days_of_week'' ''[1,2]'' = JArr [JNum 1, JNum 2] \<and>
   startsWith ''[Mon]'' ''['' \<and> endsWith ''[Mon]'' '']'' \<and>
   JSON_parse example_runtime ''[Mon]'' = None \<and>
   coerce_cell example_runtime ''days_of_week'' ''[Mon]'' = JArr [JStr ''[Mon]''] \<and>
   CHR '','' \<in> set ''Mon,Tue , Wed'' \<and>
   coerce_cell example_runtime ''days_of_week'' ''Mon,Tue , Wed''
     = JArr [JStr ''Mon'', JStr ''Tue'', JStr ''Wed''] \<and>
   CHR '','' \<notin> set ''Monday'' \<and>
   coerce_cell example_runtime ''days_of_week'' ''Monday'' = JArr [JStr ''Monday''] \<and>
   distinct (map fst [(''first_name'', ''Ann''), (''days_of_week'', ''Monday'')]) \<and>
   map_of [(''first_name'', ''Ann''), (''days_of_week'', ''Monday'')] ''days_of_week''
     = Some ''Monday'' \<and>
   map_of (process_row example_runtime 1000
            [(''first_name'', ''Ann''), (''days_of_week'', ''Monday'')]) ''days_of_week''
     = Some (JArr [JStr ''Monday''])"
proof -
  let ?r = "[(''first_name'', ''Ann''), (''days_of_week'', ''Monday'')]"
  have key: "''days_of_week'' \<in> set array_columns"
    by (simp add: array_columns_def)
  have b1: "startsWith ''[1,2]'' ''['' \<and> endsWith ''[1,2]'' '']'' \<and>
      JSON_parse example_runtime ''[1,2]'' = Some (JArr [JNum 1, JNum 2])"
    by (simp add: startsWith_def endsWith_def example_runtime_def)
  have b2: "startsWith ''[Mon]'' ''['' \<and> endsWith ''[Mon]'' '']'' \<and>
      JSON_parse example_runtime ''[Mon]'' = None"
    by (simp add: startsWith_def endsWith_def example_runtime_def)
  have b3: "''Mon,Tue , Wed'' \<noteq> [] \<and>
      \<not> (startsWith ''Mon,Tue , Wed'' ''['' \<and> endsWith ''Mon,Tue , Wed'' '']'') \<and>
      CHR '','' \<in> set ''Mon,Tue , Wed''"
    by (simp add: startsWith_def)
  have b4: "''Monday'' \<noteq> [] \<and> \<not> (startsWith ''Monday'' ''['' \<and> endsWith ''Monday'' '']'') \<and>
      CHR '','' \<notin> set ''Monday''"
    by (simp add: startsWith_def)
  have b5: "distinct (map fst ?r) \<and> map_of ?r ''days_of_week'' = Some ''Monday''"
    by simp
  from array_coercion [OF key, of example_runtime "''[1,2]''" "JArr [JNum 1, JNum 2]"] b1
  have c1: "coerce_cell example_runtime ''days_of_week'' ''[1,2]'' = JArr [JNum 1, JNum 2]"
    by blast
  from array_coercion [OF key, of example_runtime "''[Mon]''"] b2
  have c2: "coerce_cell example_runtime ''days_of_week'' ''[Mon]'' = JArr [JStr ''[Mon]'']"
    by blast
  from array_coercion [OF key, of example_runtime "''Mon,Tue , Wed''"] b3
  have "coerce_cell example_runtime ''days_of_week'' ''Mon,Tue , Wed''
      = JArr (map (\<lambda>item. JStr (trim item)) (split_on (CHR '','') ''Mon,Tue , Wed''))"
    by blast
  then have c3: "coerce_cell example_runtime ''days_of_week'' ''Mon,Tue , Wed''
      = JArr [JStr ''Mon'', JStr ''Tue'', JStr ''Wed'']"
    by (simp add: trim_def is_js_space_def)
  from array_coercion [OF key, of example_runtime "''Monday''"] b4
  have c4: "coerce_cell example_runtime ''days_of_week'' ''Monday'' = JArr [JStr ''Monday'']"
    by blast
  from array_coercion [OF key, of example_runtime "''Monday''" _ ?r 1000] b5
  have "map_of (process_row example_runtime 1000 ?r) ''days_of_week''
      = Some (coerce_cell example_runtime ''days_of_week'' ''Monday'')"
    by blast
  with c4 have c5: "map_of (process_row example_runtime 1000 ?r) ''days_of_week''
      = Some (JArr [JStr ''Monday''])"
    by simp
  from key b1 b2 b3 b4 b5 c1 c2 c3 c4 c5 show ?thesis by blast
qed

lemmas coercion_defs = process_row_def coerce_entries_def coerce_cell_def coerce_array_def
  coerce_date_def numeric_columns_def array_columns_def startsWith_def endsWith_def Let_def

lemma numeric_not_array_or_date:
  "key \<in> set numeric_columns \<Longrightarrow>
     key \<notin> set array_columns \<and> key \<noteq> ''dob'' \<and> key \<noteq> ''created_at''"
  by (auto simp add: array_columns_def numeric_columns_def)

lemma in_validate_bound:
  assumes "entry i m \<in> set (validateStudentData rows ex)"
  shows "i < length rows"
proof -
  from assms obtain j where j: "j < length rows"
      "entry i m \<in> set (rules_for_row ex (take j rows) j (rows ! j))"
    by (auto simp add: validate_eq_rules set_validate_by_rules)
  from row_of_rules [OF j(2)] have "j = i" by (simp add: row_entry)
  with j(1) show ?thesis by simp
qed

subsection \<open>Numeric columns\<close>

text \<open>
  Claim C2, as amended. For every column that coercion treats as numeric, a non-empty cell
  that is not a numeric literal (such as \<^verbatim>\<open>abc\<close>) is stored as the original string. For the six
  columns of the validator's own list (\<^verbatim>\<open>program_id\<close>, \<^verbatim>\<open>program_2_id\<close>, \<^verbatim>\<open>center_id\<close>,
  \<^verbatim>\<open>number_of_sessions\<close>, \<^verbatim>\<open>educator_employee_id\<close>, \<^verbatim>\<open>secondary_educator_employee_id\<close>) the
  validator emits a type error for that row and column. The two other columns that coercion
  treats as numeric, \<^verbatim>\<open>student_id\<close> and \<^verbatim>\<open>enrollment_year\<close>, never get a type error from the
  validator.
\<close>

theorem numeric_fallback:
  "(key \<in> set numeric_columns \<and> v \<noteq> [] \<and> isNaN_Number v \<longrightarrow>
      coerce_cell rt key v = JStr v \<and>
      (distinct (map fst r) \<and> map_of r key = Some v \<longrightarrow>
         map_of (process_row rt now r) key = Some (JStr v))) \<and>
   (key \<in> set numericFields \<and> i < length rows \<and> map_of (rows ! i) key = Some v \<and>
      v \<noteq> [] \<and> isNaN_Number v \<longrightarrow>
      \<lparr>row = i + 1, message = invalid_numeric_message i key\<rparr>
        \<in> set (validateStudentData rows existingIds)) \<and>
   (key = ''student_id'' \<or> key = ''enrollment_year'' \<longrightarrow>
      key \<in> set numeric_columns \<and>
      \<lparr>row = i + 1, message = invalid_numeric_message i key\<rparr>
        \<notin> set (validateStudentData rows existingIds)) \<and>
   set numeric_columns = set numericFields \<union> {''student_id'', ''enrollment_year''} \<and>
   isNaN_Number ''abc''"
proof (intro conjI impI)
  assume h: "key \<in> set numeric_columns \<and> v \<noteq> [] \<and> isNaN_Number v"
  with numeric_not_array_or_date [of key]
  show cell: "coerce_cell rt key v = JStr v"
    by (simp add: coerce_cell_def)
  assume "distinct (map fst r) \<and> map_of r key = Some v"
  with h numeric_not_array_or_date [of key] cell
  show "map_of (process_row rt now r) key = Some (JStr v)"
    by (simp add: process_row_other_key map_of_coerce_entries)
next
  assume h: "key \<in> set numericFields \<and> i < length rows \<and> map_of (rows ! i) key = Some v \<and>
      v \<noteq> [] \<and> isNaN_Number v"
  then have "not_numeric (rows ! i) key"
    by (simp add: not_numeric_def)
  with h show "\<lparr>row = i + 1, message = invalid_numeric_message i key\<rparr>
        \<in> set (validateStudentData rows existingIds)"
    unfolding entry_record by (simp add: in_validate_iff numeric_entry_iff)
next
  assume "key = ''student_id'' \<or> key = ''enrollment_year''"
  then show "key \<in> set numeric_columns"
    by (auto simp add: numeric_columns_def)
next
  assume k: "key = ''student_id'' \<or> key = ''enrollment_year''"
  then have out: "key \<notin> set numericFields"
    by (auto simp add: numericFields_def)
  show "\<lparr>row = i + 1, message = invalid_numeric_message i key\<rparr>
        \<notin> set (validateStudentData rows existingIds)"
    unfolding entry_record
  proof
    assume mem: "entry i (invalid_numeric_message i key) \<in> set (validateStudentData rows existingIds)"
    then have "i < length rows" by (rule in_validate_bound)
    with mem out show False
      by (simp add: in_validate_iff numeric_entry_iff)
  qed
next
  show "set numeric_columns = set numericFields \<union> {''student_id'', ''enrollment_year''}"
    by (auto simp add: numeric_columns_def numericFields_def)
  show "isNaN_Number ''abc''"
    by (simp add: string_defs)
qed

theorem numeric_fallback_witness:
  "''program_id'' \<in> set numericFields \<and> ''program_id'' \<in> set numeric_columns \<and>
   isNaN_Number ''abc'' \<and>
   map_of ([[(''first_name'', ''Ann''), (''program_id'', ''abc'')]] ! 0) ''program_id'' = Some ''abc'' \<and>
   coerce_cell example_runtime ''program_id'' ''abc'' = JStr ''abc'' \<and>
   map_of (process_row example_runtime 1000 [(''first_name'', ''Ann''), (''program_id'', ''abc'')])
     ''program_id'' = Some (JStr ''abc'') \<and>
   \<lparr>row = 0 + 1, message = invalid_numeric_message 0 ''program_id''\<rparr>
     \<in> set (validateStudentData [[(''first_name'', ''Ann''), (''program_id'', ''abc'')]]
            ({} :: int jsval set)) \<and>
   ''student_id'' \<in> set numeric_columns \<and>
   \<lparr>row = 0 + 1, message = invalid_numeric_message 0 ''student_id''\<rparr>
     \<notin> set (validateStudentData [[(''first_name'', ''Ann''), (''student_id'', ''abc'')]]
            ({} :: int jsval set))"
proof -
  let ?r = "[(''first_name'', ''Ann''), (''program_id'', ''abc'')]"
  let ?q = "[(''first_name'', ''Ann''), (''student_id'', ''abc'')]"
  have k1: "''program_id'' \<in> set numericFields" by (simp add: numericFields_def)
  have k2: "''program_id'' \<in> set numeric_columns" by (simp add: numeric_columns_def)
  have nan: "''abc'' \<noteq> [] \<and> isNaN_Number ''abc''" by (simp add: string_defs)
  have cell: "distinct (map fst ?r) \<and> map_of ?r ''program_id'' = Some ''abc''" by simp
  have at: "(0::nat) < length [?r] \<and> map_of ([?r] ! 0) ''program_id'' = Some ''abc''" by simp
  note flagged = numeric_fallback [of "''program_id''" "''abc''" example_runtime ?r 1000 0 "[?r]"
      "{} :: int jsval set"]
  from flagged k2 nan
  have c1: "coerce_cell example_runtime ''program_id'' ''abc'' = JStr ''abc''"
    by blast
  from flagged k2 nan cell
  have c2: "map_of (process_row example_runtime 1000 ?r) ''program_id'' = Some (JStr ''abc'')"
    by blast
  from flagged k1 nan at
  have c3: "\<lparr>row = 0 + 1, message = invalid_numeric_message 0 ''program_id''\<rparr>
      \<in> set (validateStudentData [?r] ({} :: int jsval set))"
    by blast
  note skipped = numeric_fallback [of "''student_id''" "''abc''" example_runtime ?q 1000 0 "[?q]"
      "{} :: int jsval set"]
  from skipped
  have c4: "''student_id'' \<in> set numeric_columns \<and>
      \<lparr>row = 0 + 1, message = invalid_numeric_message 0 ''student_id''\<rparr>
        \<notin> set (validateStudentData [?q] ({} :: int jsval set))"
    by blast
  from k1 k2 nan at c1 c2 c3 c4 show ?thesis by blast
qed

text \<open>
  The claim as first stated, with the type error promised for every numeric column, fails on
  \<^verbatim>\<open>student_id\<close>: the row below has \<^verbatim>\<open>abc\<close> there, and the validator returns no error at all.
\<close>

theorem numeric_without_type_error_counterexample:
  "''student_id'' \<in> set numeric_columns \<and> isNaN_Number ''abc'' \<and>
   map_of (student_row ''abc'' ''Ann'' ''Lee'' ''ann@example.com'') ''student_id'' = Some ''abc'' \<and>
   coerce_cell example_runtime ''student_id'' ''abc'' = JStr ''abc'' \<and>
   validateStudentData [student_row ''abc'' ''Ann'' ''Lee'' ''ann@example.com'']
     ({} :: int jsval set) = []"
  by (simp add: validate_eq_rules rule_defs string_defs student_row_def coercion_defs)

subsection \<open>Coercion and the clock\<close>

lemma process_row_unstamped:
  "\<not> falsy rt (map_of (coerce_entries rt r) ''created_at'') \<Longrightarrow>
     process_row rt now r = coerce_entries rt r"
  by (simp add: process_row_def Let_def)

lemma process_row_stamped:
  "falsy rt (map_of (coerce_entries rt r) ''created_at'') \<Longrightarrow>
     map_of (process_row rt now r) ''created_at'' = Some (JStr (toISOString rt now))"
  by (simp add: process_row_def Let_def update_conv')

text \<open>
  Claim C1, as amended. Coercion is a function of the row, the column lists and the time at
  which the row is coerced. Two coercions of the same row agree on every column other than
  \<^verbatim>\<open>created_at\<close>. When the row has a non-empty \<^verbatim>\<open>created_at\<close> cell the clock is not consulted and
  the two coerced records are identical (given that \<^verbatim>\<open>toISOString\<close> never returns the empty
  string). When \<^verbatim>\<open>created_at\<close> is absent or empty, each record carries the ISO time of its own
  coercion.
\<close>

theorem coercion_up_to_clock:
  "(key \<noteq> ''created_at'' \<longrightarrow>
      map_of (process_row rt t1 r) key = map_of (process_row rt t2 r) key) \<and>
   (distinct (map fst r) \<and> map_of r ''created_at'' = Some v \<and> v \<noteq> [] \<and>
    (\<forall>t. toISOString rt t \<noteq> []) \<longrightarrow>
      process_row rt t1 r = process_row rt t2 r) \<and>
   (distinct (map fst r) \<and>
    (map_of r ''created_at'' = None \<or> map_of r ''created_at'' = Some []) \<longrightarrow>
      map_of (process_row rt t1 r) ''created_at'' = Some (JStr (toISOString rt t1)) \<and>
      map_of (process_row rt t2 r) ''created_at'' = Some (JStr (toISOString rt t2)))"
proof (intro conjI impI)
  assume "key \<noteq> ''created_at''"
  then show "map_of (process_row rt t1 r) key = map_of (process_row rt t2 r) key"
    by (simp add: process_row_other_key)
next
  assume h: "distinct (map fst r) \<and> map_of r ''created_at'' = Some v \<and> v \<noteq> [] \<and>
    (\<forall>t. toISOString rt t \<noteq> [])"
  then have "map_of (coerce_entries rt r) ''created_at'' = Some (coerce_date rt v)"
    by (simp add: map_of_coerce_entries coerce_cell_created_at)
  moreover from h obtain s where "coerce_date rt v = JStr s" "s \<noteq> []"
    using coerce_date_string [of rt v] by blast
  ultimately have "\<not> falsy rt (map_of (coerce_entries rt r) ''created_at'')"
    by simp
  then show "process_row rt t1 r = process_row rt t2 r"
    by (simp add: process_row_unstamped)
next
  assume h: "distinct (map fst r) \<and>
    (map_of r ''created_at'' = None \<or> map_of r ''created_at'' = Some [])"
  then have f: "falsy rt (map_of (coerce_entries rt r) ''created_at'')"
    by (auto simp add: map_of_coerce_entries coerce_cell_created_at)
  from f show "map_of (process_row rt t1 r) ''created_at'' = Some (JStr (toISOString rt t1))"
    by (rule process_row_stamped)
  from f show "map_of (process_row rt t2 r) ''created_at'' = Some (JStr (toISOString rt t2))"
    by (rule process_row_stamped)
qed

theorem coercion_up_to_clock_witness:
  "distinct (map fst [(''first_name'', ''Ann''), (''created_at'', ''1970-01-02'')]) \<and>
   map_of [(''first_name'', ''Ann''), (''created_at'', ''1970-01-02'')] ''created_at''
     = Some ''1970-01-02'' \<and>
   (\<forall>t. toISOString example_runtime t \<noteq> []) \<and>
   process_row example_runtime 0 [(''first_name'', ''Ann''), (''created_at'', ''1970-01-02'')] =
   process_row example_runtime 1000 [(''first_name'', ''Ann''), (''created_at'', ''1970-01-02'')] \<and>
   map_of [(''first_name'', ''Ann'')] ''created_at'' = None \<and>
   map_of (process_row example_runtime 0 [(''first_name'', ''Ann'')]) ''created_at''
     = Some (JStr ''1970-01-01T00:00:00.000Z'') \<and>
   map_of (process_row example_runtime 1000 [(''first_name'', ''Ann'')]) ''created_at''
     = Some (JStr ''1970-01-01T00:00:01.000Z'') \<and>
   ''first_name'' \<noteq> ''created_at'' \<and>
   map_of (process_row example_runtime 0 [(''first_name'', ''Ann'')]) ''first_name'' =
   map_of (process_row example_runtime 1000 [(''first_name'', ''Ann'')]) ''first_name''"
proof -
  let ?r = "[(''first_name'', ''Ann''), (''created_at'', ''1970-01-02'')]"
  let ?q = "[(''first_name'', ''Ann'')] :: raw_row"
  have iso: "\<forall>t. toISOString example_runtime t \<noteq> []"
    by (simp add: example_runtime_def)
  have r: "distinct (map fst ?r) \<and> map_of ?r ''created_at'' = Some ''1970-01-02'' \<and>
      ''1970-01-02'' \<noteq> []"
    by simp
  have q: "distinct (map fst ?q) \<and> map_of ?q ''created_at'' = None"
    by simp
  have other: "''first_name'' \<noteq> ''created_at''"
    by simp
  from coercion_up_to_clock [of "''created_at''" example_runtime 0 ?r 1000 "''1970-01-02''"] r iso
  have same: "process_row example_runtime 0 ?r = process_row example_runtime 1000 ?r"
    by blast
  from coercion_up_to_clock [of "''first_name''" example_runtime 0 ?q 1000 "[]"] q
  have "map_of (process_row example_runtime 0 ?q) ''created_at''
        = Some (JStr (toISOString example_runtime 0)) \<and>
      map_of (process_row example_runtime 1000 ?q) ''created_at''
        = Some (JStr (toISOString example_runtime 1000))"
    by blast
  then have stamp: "map_of (process_row example_runtime 0 ?q) ''created_at''
        = Some (JStr ''1970-01-01T00:00:00.000Z'') \<and>
      map_of (process_row example_runtime 1000 ?q) ''created_at''
        = Some (JStr ''1970-01-01T00:00:01.000Z'')"
    by (simp add: example_runtime_def)
  from coercion_up_to_clock [of "''first_name''" example_runtime 0 ?q 1000 "[]"] other
  have rest: "map_of (process_row example_runtime 0 ?q) ''first_name'' =
      map_of (process_row example_runtime 1000 ?q) ''first_name''"
    by blast
  from r q iso same stamp other rest show ?thesis by blast
qed

text \<open>
  The claim as first stated, identical records also when \<^verbatim>\<open>created_at\<close> is absent, fails: the
  same row coerced at the epoch and one second later gives two different records.
\<close>

theorem coercion_reads_clock_counterexample:
  "map_of (process_row example_runtime 0 [(''first_name'', ''Ann'')]) ''created_at''
     = Some (JStr ''1970-01-01T00:00:00.000Z'') \<and>
   map_of (process_row example_runtime 1000 [(''first_name'', ''Ann'')]) ''created_at''
     = Some (JStr ''1970-01-01T00:00:01.000Z'') \<and>
   process_row example_runtime 0 [(''first_name'', ''Ann'')] \<noteq>
   process_row example_runtime 1000 [(''first_name'', ''Ann'')]"
  by (simp add: coercion_defs example_runtime_def)

subsection \<open>When \<^verbatim>\<open>handleUpload\<close> reaches \<^verbatim>\<open>bulkInsert\<close>\<close>

lemma bulk_in_persist: "BulkInsert tn recs \<in> set (persist env t p) \<longleftrightarrow> tn = t \<and> recs = p"
  by (cases "bulkInsert env t p") (auto simp add: persist_def)

lemma bulk_in_on_parsed:
  assumes "BulkInsert tn recs \<in> set (on_parsed rt env t ex results :: 'n effect list)"
  obtains rows where "tn = t" and "results = ParseComplete [] rows" and "rows \<noteq> []"
    and "t = ''students'' \<longrightarrow> validateStudentData rows ex = []"
    and "recs = process_rows rt (clock env) rows"
    and "on_parsed rt env t ex results = persist env t recs"
proof (cases results)
  case (ParseFailed m)
  with assms show ?thesis by (simp add: on_parsed_def)
next
  case (ParseComplete errs rows)
  show ?thesis
  proof (cases errs)
    case (Cons e es)
    with assms ParseComplete show ?thesis by (simp add: on_parsed_def)
  next
    case Nil
    show ?thesis
    proof (cases "rows = []")
      case True
      with assms ParseComplete Nil show ?thesis by (simp add: on_parsed_def)
    next
      case False
      show ?thesis
      proof (cases "t = ''students'' \<and> validateStudentData rows ex \<noteq> []")
        case True
        with assms ParseComplete Nil False show ?thesis by (simp add: on_parsed_def)
      next
        case ok: False
        then have "(if t = ''students'' \<and> validateStudentData rows ex \<noteq> [] then a else b) = b"
          for a b :: "'n effect list"
          by (rule if_not_P)
        with ParseComplete Nil False
        have eq: "on_parsed rt env t ex results = persist env t (process_rows rt (clock env) rows)"
          by (simp only: on_parsed_def parse_results.case list.case if_False)
        with assms have tn: "tn = t" and recs: "recs = process_rows rt (clock env) rows"
          by (simp_all add: bulk_in_persist)
        from ok have valid: "t = ''students'' \<longrightarrow> validateStudentData rows ex = []"
          by simp
        from ParseComplete Nil have res: "results = ParseComplete [] rows"
          by simp
        from eq recs have eq': "on_parsed rt env t ex results = persist env t recs"
          by simp
        from tn res False valid recs eq' show ?thesis
          by (rule that)
      qed
    qed
  qed
qed

lemma bulk_in_handleUpload:
  assumes "BulkInsert tn recs \<in> set (handleUpload rt env t :: 'n effect list)"
  obtains rows and ex :: "'n jsval set" and pre where "tn = t" and "rows \<noteq> []"
    and "t = ''students'' \<longrightarrow> validateStudentData rows ex = []"
    and "recs = process_rows rt (clock env) rows"
    and "handleUpload rt env t = pre @ persist env t recs"
    and "pre = [SetIsUploading True, SetError None] \<or>
         pre = [SetIsUploading True, SetError None, FetchTableData t]"
proof (cases "selected_file env")
  case None
  with assms show ?thesis by (simp add: handleUpload_def)
next
  case (Some contents)
  show ?thesis
  proof (cases contents)
    case (Inl err)
    with assms Some show ?thesis by (simp add: handleUpload_def on_read_error_def)
  next
    case (Inr content)
    show ?thesis
    proof (cases "t = ''students''")
      case False
      with Some Inr have eq: "handleUpload rt env t =
          [SetIsUploading True, SetError None] @ on_parsed rt env t {} (Papa_parse env content)"
        by (simp add: handleUpload_def)
      with assms have "BulkInsert tn recs \<in> set (on_parsed rt env t {} (Papa_parse env content))"
        by simp
      then obtain rows where tn: "tn = t"
        and res: "Papa_parse env content = ParseComplete [] rows"
        and rows: "rows \<noteq> []"
        and valid: "t = ''students'' \<longrightarrow> validateStudentData rows ({} :: 'n jsval set) = []"
        and recs: "recs = process_rows rt (clock env) rows"
        and p: "on_parsed rt env t {} (Papa_parse env content) = persist env t recs"
        by (rule bulk_in_on_parsed)
      from eq p have whole: "handleUpload rt env t = [SetIsUploading True, SetError None] @ persist env t recs"
        by simp
      have pre: "[SetIsUploading True, SetError None] = [SetIsUploading True, SetError None] \<or>
          [SetIsUploading True, SetError None] = [SetIsUploading True, SetError None, FetchTableData t]"
        by simp
      from tn rows valid recs whole pre show ?thesis
        by (rule that)
    next
      case True
      show ?thesis
      proof (cases "fetchTableData env t")
        case (Inl err)
        with assms Some Inr True show ?thesis by (simp add: handleUpload_def on_read_error_def)
      next
        case fetched: (Inr existing)
        define ex where "ex = (case existing of None \<Rightarrow> {} | Some d \<Rightarrow> existing_student_ids d)"
        from Some Inr True fetched have eq: "handleUpload rt env t =
            [SetIsUploading True, SetError None, FetchTableData t] @
            on_parsed rt env t ex (Papa_parse env content)"
          by (cases existing) (simp_all add: handleUpload_def ex_def)
        with assms have "BulkInsert tn recs \<in> set (on_parsed rt env t ex (Papa_parse env content))"
          by simp
        then obtain rows where tn: "tn = t"
          and res: "Papa_parse env content = ParseComplete [] rows"
          and rows: "rows \<noteq> []"
          and valid: "t = ''students'' \<longrightarrow> validateStudentData rows ex = []"
          and recs: "recs = process_rows rt (clock env) rows"
          and p: "on_parsed rt env t ex (Papa_parse env content) = persist env t recs"
          by (rule bulk_in_on_parsed)
        from eq p have whole: "handleUpload rt env t =
            [SetIsUploading True, SetError None, FetchTableData t] @ persist env t recs"
          by simp
        have pre: "[SetIsUploading True, SetError None, FetchTableData t] = [SetIsUploading True, SetError None] \<or>
            [SetIsUploading True, SetError None, FetchTableData t] =
            [SetIsUploading True, SetError None, FetchTableData t]"
          by simp
        from tn rows valid recs whole pre show ?thesis
          by (rule that)
      qed
    qed
  qed
qed

subsection \<open>The example files\<close>

lemma example_ids: "existing_student_ids [[(''student_id'', JStr ''100'')]] = {JStr ''100''}"
  by (simp add: existing_student_ids_def)

lemma three_rows_errors:
  "validateStudentData three_rows ({JStr ''100''} :: int jsval set) =
     [\<lparr>row = 2, message = missing_required_message 1 ''last_name''\<rparr>,
      \<lparr>row = 3, message = duplicate_in_file_message 2 ''101''\<rparr>]"
  by (simp add: validate_eq_rules rule_defs string_defs three_rows_def student_row_def entry_def
      numeral_2_eq_2)

lemma two_rows_valid: "validateStudentData two_rows ({JStr ''100''} :: int jsval set) = []"
  by (simp add: validate_eq_rules rule_defs string_defs two_rows_def student_row_def)

lemma two_rows_processed:
  "process_rows example_runtime (\<lambda>i. 1000) two_rows =
     [[(''first_name'', JStr ''Ann''), (''last_name'', JStr ''Lee''), (''student_id'', JNum 101),
       (''student_email'', JStr ''ann@example.com''), (''program_id'', JNum 1),
       (''center_id'', JNum 2), (''created_at'', JStr ''1970-01-01T00:00:01.000Z'')],
      [(''first_name'', JStr ''Bob''), (''last_name'', JStr ''Orr''), (''student_id'', JNum 102),
       (''student_email'', JStr ''bob@example.com''), (''program_id'', JNum 1),
       (''center_id'', JNum 2), (''created_at'', JStr ''1970-01-01T00:00:01.000Z'')]]"
  by (simp add: process_rows_def coercion_defs string_defs two_rows_def student_row_def
      example_runtime_def)


lemma example_env_trace:
  "handleUpload rt (example_env rows) ''students'' =
     [SetIsUploading True, SetError None, FetchTableData ''students''] @
     on_parsed rt (example_env rows) ''students'' {JStr ''100''} (ParseComplete [] rows)"
  by (simp add: handleUpload_def example_env_def example_ids)

lemma example_env_clock: "clock (example_env rows) = (\<lambda>i. 1000)"
  by (simp add: example_env_def)

lemma example_env_persist:
  "persist (example_env rows) t recs =
     [BulkInsert t recs, SetIsUploading False, ToastSuccess ''Inserted'', OnSuccess, OnClose]"
  by (simp add: persist_def example_env_def)

lemma two_rows_trace:
  "handleUpload example_runtime (example_env two_rows) ''students'' =
     [SetIsUploading True, SetError None, FetchTableData ''students'',
      BulkInsert ''students'' (process_rows example_runtime (\<lambda>i. 1000) two_rows),
      SetIsUploading False, ToastSuccess ''Inserted'', OnSuccess, OnClose]"
proof -
  have rows: "two_rows \<noteq> []" by (simp add: two_rows_def)
  have "on_parsed example_runtime (example_env two_rows) ''students'' {JStr ''100''}
        (ParseComplete [] two_rows) =
      persist (example_env two_rows) ''students''
        (process_rows example_runtime (\<lambda>i. 1000) two_rows)"
    using rows by (simp add: on_parsed_def two_rows_valid example_env_clock)
  then show ?thesis
    by (simp only: example_env_trace example_env_persist append.simps)
qed

subsection \<open>The records handed to \<^verbatim>\<open>bulkInsert\<close>\<close>

text \<open>
  Claim C6. Every record of every \<^verbatim>\<open>bulkInsert\<close> call that \<^verbatim>\<open>handleUpload\<close> makes has a
  \<^verbatim>\<open>created_at\<close> that is a non-empty string, given that \<^verbatim>\<open>toISOString\<close> never returns the empty
  string: a record whose coerced \<^verbatim>\<open>created_at\<close> is absent, \<^verbatim>\<open>null\<close> or empty is stamped with the
  current time. A valid file of two rows without a \<^verbatim>\<open>created_at\<close> column leads to exactly one
  \<^verbatim>\<open>bulkInsert\<close> call, with two coerced records, each stamped.
\<close>

theorem inserted_records_have_created_at:
  "((\<forall>t. toISOString rt t \<noteq> []) \<and>
    BulkInsert tn recs \<in> set (handleUpload rt env tableName) \<and> x \<in> set recs \<longrightarrow>
      (\<exists>s. map_of x ''created_at'' = Some (JStr s) \<and> s \<noteq> [])) \<and>
   (falsy rt (map_of (coerce_entries rt r) ''created_at'') \<longrightarrow>
      map_of (process_row rt now r) ''created_at'' = Some (JStr (toISOString rt now))) \<and>
   filter is_bulk_insert (handleUpload example_runtime (example_env two_rows) ''students'') =
     [BulkInsert ''students''
       [[(''first_name'', JStr ''Ann''), (''last_name'', JStr ''Lee''), (''student_id'', JNum 101),
         (''student_email'', JStr ''ann@example.com''), (''program_id'', JNum 1),
         (''center_id'', JNum 2), (''created_at'', JStr ''1970-01-01T00:00:01.000Z'')],
        [(''first_name'', JStr ''Bob''), (''last_name'', JStr ''Orr''), (''student_id'', JNum 102),
         (''student_email'', JStr ''bob@example.com''), (''program_id'', JNum 1),
         (''center_id'', JNum 2), (''created_at'', JStr ''1970-01-01T00:00:01.000Z'')]]]"
proof (intro conjI impI)
  assume h: "(\<forall>t. toISOString rt t \<noteq> []) \<and>
    BulkInsert tn recs \<in> set (handleUpload rt env tableName) \<and> x \<in> set recs"
  then have "BulkInsert tn recs \<in> set (handleUpload rt env tableName)" by simp
  then obtain rows where "recs = process_rows rt (clock env) rows"
    by (rule bulk_in_handleUpload)
  with h have "x \<in> set (process_rows rt (clock env) rows)" by simp
  with h show "\<exists>s. map_of x ''created_at'' = Some (JStr s) \<and> s \<noteq> []"
    using process_rows_created_at [of rt x "clock env" rows] by blast
next
  assume "falsy rt (map_of (coerce_entries rt r) ''created_at'')"
  then show "map_of (process_row rt now r) ''created_at'' = Some (JStr (toISOString rt now))"
    by (rule process_row_stamped)
next
  show "filter is_bulk_insert (handleUpload example_runtime (example_env two_rows) ''students'') =
     [BulkInsert ''students''
       [[(''first_name'', JStr ''Ann''), (''last_name'', JStr ''Lee''), (''student_id'', JNum 101),
         (''student_email'', JStr ''ann@example.com''), (''program_id'', JNum 1),
         (''center_id'', JNum 2), (''created_at'', JStr ''1970-01-01T00:00:01.000Z'')],
        [(''first_name'', JStr ''Bob''), (''last_name'', JStr ''Orr''), (''student_id'', JNum 102),
         (''student_email'', JStr ''bob@example.com''), (''program_id'', JNum 1),
         (''center_id'', JNum 2), (''created_at'', JStr ''1970-01-01T00:00:01.000Z'')]]]"
    by (simp add: two_rows_trace two_rows_processed)
qed

theorem inserted_records_have_created_at_witness:
  "(\<forall>t. toISOString example_runtime t \<noteq> []) \<and>
   BulkInsert ''students'' (process_rows example_runtime (\<lambda>i. 1000) two_rows)
     \<in> set (handleUpload example_runtime (example_env two_rows) ''students'') \<and>
   process_row example_runtime 1000 (student_row ''101'' ''Ann'' ''Lee'' ''ann@example.com'')
     \<in> set (process_rows example_runtime (\<lambda>i. 1000) two_rows) \<and>
   (\<exists>s. map_of (process_row example_runtime 1000
                  (student_row ''101'' ''Ann'' ''Lee'' ''ann@example.com'')) ''created_at''
          = Some (JStr s) \<and> s \<noteq> []) \<and>
   falsy example_runtime
     (map_of (coerce_entries example_runtime [(''first_name'', ''Ann''), (''created_at'', [])])
        ''created_at'') \<and>
   map_of (process_row example_runtime 1000 [(''first_name'', ''Ann''), (''created_at'', [])])
     ''created_at'' = Some (JStr ''1970-01-01T00:00:01.000Z'')"
proof -
  let ?q = "[(''first_name'', ''Ann''), (''created_at'', [])] :: raw_row"
  have iso: "\<forall>t. toISOString example_runtime t \<noteq> []"
    by (simp add: example_runtime_def)
  have ins: "BulkInsert ''students'' (process_rows example_runtime (\<lambda>i. 1000) two_rows)
     \<in> set (handleUpload example_runtime (example_env two_rows) ''students'')"
    by (simp add: two_rows_trace)
  have mem: "process_row example_runtime 1000 (student_row ''101'' ''Ann'' ''Lee'' ''ann@example.com'')
     \<in> set (process_rows example_runtime (\<lambda>i. 1000) two_rows)"
    by (simp add: process_rows_def two_rows_def)
  have empty: "falsy example_runtime (map_of (coerce_entries example_runtime ?q) ''created_at'')"
    by (simp add: coerce_entries_def coerce_cell_def)
  note stamped = inserted_records_have_created_at [where rt = example_runtime
      and tn = "''students''" and recs = "process_rows example_runtime (\<lambda>i. 1000) two_rows"
      and env = "example_env two_rows" and tableName = "''students''"
      and x = "process_row example_runtime 1000
                 (student_row ''101'' ''Ann'' ''Lee'' ''ann@example.com'')"
      and r = ?q and now = 1000]
  have present: "\<exists>s. map_of (process_row example_runtime 1000
                  (student_row ''101'' ''Ann'' ''Lee'' ''ann@example.com'')) ''created_at''
          = Some (JStr s) \<and> s \<noteq> []"
    by (rule mp [OF stamped [THEN conjunct1]]) (intro conjI iso ins mem)
  have "map_of (process_row example_runtime 1000 ?q) ''created_at''
      = Some (JStr (toISOString example_runtime 1000))"
    by (rule mp [OF stamped [THEN conjunct2, THEN conjunct1]]) (rule empty)
  then have now: "map_of (process_row example_runtime 1000 ?q) ''created_at''
      = Some (JStr ''1970-01-01T00:00:01.000Z'')"
    by (simp add: example_runtime_def)
  show ?thesis
    by (intro conjI iso ins mem present empty now)
qed

lemma validated_trace:
  assumes "selected_file env = Some (Inr content)"
    and "fetchTableData env ''students'' = Inr (Some existingData)"
    and "Papa_parse env content = ParseComplete [] rows"
    and "rows \<noteq> []"
    and "validateStudentData rows (existing_student_ids existingData) = []"
  shows "handleUpload rt env ''students'' =
     [SetIsUploading True, SetError None, FetchTableData ''students''] @
     persist env ''students'' (process_rows rt (clock env) rows)"
  using assms by (simp add: handleUpload_def on_parsed_def)

lemma rejected_trace:
  assumes "selected_file env = Some (Inr content)"
    and "fetchTableData env ''students'' = Inr existing"
    and "Papa_parse env content = ParseComplete [] rows"
    and "rows \<noteq> []"
    and "validateStudentData rows (case existing of None \<Rightarrow> {} | Some d \<Rightarrow> existing_student_ids d) \<noteq> []"
  shows "handleUpload rt env ''students'' =
     [SetIsUploading True, SetError None, FetchTableData ''students'',
      SetError (Some (validation_report (validateStudentData rows
         (case existing of None \<Rightarrow> {} | Some d \<Rightarrow> existing_student_ids d)))),
      SetIsUploading False]"
  using assms by (cases existing) (simp_all add: handleUpload_def on_parsed_def)

lemma three_rows_trace:
  "handleUpload example_runtime (example_env three_rows) ''students'' =
     [SetIsUploading True, SetError None, FetchTableData ''students'',
      SetError (Some (validation_report
        [\<lparr>row = 2, message = missing_required_message 1 ''last_name''\<rparr>,
         \<lparr>row = 3, message = duplicate_in_file_message 2 ''101''\<rparr>])),
      SetIsUploading False]"
proof -
  have rows: "three_rows \<noteq> []" by (simp add: three_rows_def)
  have "on_parsed example_runtime (example_env three_rows) ''students'' {JStr ''100''}
        (ParseComplete [] three_rows) =
      [SetError (Some (validation_report
        [\<lparr>row = 2, message = missing_required_message 1 ''last_name''\<rparr>,
         \<lparr>row = 3, message = duplicate_in_file_message 2 ''101''\<rparr>])),
       SetIsUploading False]"
    using rows by (simp add: on_parsed_def three_rows_errors)
  then show ?thesis
    by (simp only: example_env_trace append.simps)
qed

subsection \<open>A batch that fails validation\<close>

text \<open>
  Claim C5, as amended. When the rows of a students file fail validation, the run fetches the
  existing rows, reports the validation errors and stops: the fetch is its only call to the
  backing store, and \<^verbatim>\<open>bulkInsert\<close> is not called. The report lists every message when there
  are at most five, and otherwise the first five followed by the number of the others. A
  \<^verbatim>\<open>bulkInsert\<close> into students only ever carries rows that validated without error. For the
  file of three rows (blank \<^verbatim>\<open>last_name\<close> in row 2, row 3 repeating the identifier of row 1)
  there are exactly two validation errors and no insert.
\<close>

theorem failed_validation_blocks_insert:
  "(selected_file env = Some (Inr content) \<and> fetchTableData env ''students'' = Inr existing \<and>
    Papa_parse env content = ParseComplete [] rows \<and> rows \<noteq> [] \<and>
    validateStudentData rows (case existing of None \<Rightarrow> {} | Some d \<Rightarrow> existing_student_ids d) \<noteq> [] \<longrightarrow>
      handleUpload rt env ''students'' =
        [SetIsUploading True, SetError None, FetchTableData ''students'',
         SetError (Some (validation_report (validateStudentData rows
            (case existing of None \<Rightarrow> {} | Some d \<Rightarrow> existing_student_ids d)))),
         SetIsUploading False]) \<and>
   (length errs \<le> 5 \<longrightarrow>
      validation_report errs =
        ''Validation errors found:'' @ newline @ join newline (map message errs)) \<and>
   (5 < length errs \<longrightarrow>
      validation_report errs =
        ''Validation errors found:'' @ newline @ join newline (map message (take 5 errs)) @
        newline @ ''...and '' @ show_nat (length errs - 5) @ '' more errors'') \<and>
   (BulkInsert ''students'' recs \<in> set (handleUpload rt env ''students'') \<longrightarrow>
      (\<exists>rows' ex. validateStudentData rows' (ex :: 'n jsval set) = [] \<and>
         recs = process_rows rt (clock env) rows')) \<and>
   validateStudentData three_rows
       (existing_student_ids [[(''student_id'', JStr ''100'')]] :: int jsval set) =
     [\<lparr>row = 2, message = missing_required_message 1 ''last_name''\<rparr>,
      \<lparr>row = 3, message = duplicate_in_file_message 2 ''101''\<rparr>] \<and>
   handleUpload example_runtime (example_env three_rows) ''students'' =
     [SetIsUploading True, SetError None, FetchTableData ''students'',
      SetError (Some (validation_report
        [\<lparr>row = 2, message = missing_required_message 1 ''last_name''\<rparr>,
         \<lparr>row = 3, message = duplicate_in_file_message 2 ''101''\<rparr>])),
      SetIsUploading False]"
  for rt :: "'n js_runtime"
proof (intro conjI impI)
  assume "selected_file env = Some (Inr content) \<and> fetchTableData env ''students'' = Inr existing \<and>
    Papa_parse env content = ParseComplete [] rows \<and> rows \<noteq> [] \<and>
    validateStudentData rows (case existing of None \<Rightarrow> {} | Some d \<Rightarrow> existing_student_ids d) \<noteq> []"
  then show "handleUpload rt env ''students'' =
        [SetIsUploading True, SetError None, FetchTableData ''students'',
         SetError (Some (validation_report (validateStudentData rows
            (case existing of None \<Rightarrow> {} | Some d \<Rightarrow> existing_student_ids d)))),
         SetIsUploading False]"
    using rejected_trace [of env content existing rows rt] by blast
next
  assume "length errs \<le> 5"
  then show "validation_report errs =
        ''Validation errors found:'' @ newline @ join newline (map message errs)"
    by (simp add: validation_report_def)
next
  assume "5 < length errs"
  then show "validation_report errs =
        ''Validation errors found:'' @ newline @ join newline (map message (take 5 errs)) @
        newline @ ''...and '' @ show_nat (length errs - 5) @ '' more errors''"
    by (simp add: validation_report_def)
next
  assume "BulkInsert ''students'' recs \<in> set (handleUpload rt env ''students'')"
  then obtain rows' and ex :: "'n jsval set"
    where "''students'' = ''students'' \<longrightarrow> validateStudentData rows' ex = []"
      and "recs = process_rows rt (clock env) rows'"
    by (rule bulk_in_handleUpload)
  then have "validateStudentData rows' ex = [] \<and> recs = process_rows rt (clock env) rows'"
    by simp
  then show "\<exists>rows' ex. validateStudentData rows' (ex :: 'n jsval set) = [] \<and>
         recs = process_rows rt (clock env) rows'"
    by blast
next
  show "validateStudentData three_rows
       (existing_student_ids [[(''student_id'', JStr ''100'')]] :: int jsval set) =
     [\<lparr>row = 2, message = missing_required_message 1 ''last_name''\<rparr>,
      \<lparr>row = 3, message = duplicate_in_file_message 2 ''101''\<rparr>]"
    by (simp only: example_ids three_rows_errors)
  show "handleUpload example_runtime (example_env three_rows) ''students'' =
     [SetIsUploading True, SetError None, FetchTableData ''students'',
      SetError (Some (validation_report
        [\<lparr>row = 2, message = missing_required_message 1 ''last_name''\<rparr>,
         \<lparr>row = 3, message = duplicate_in_file_message 2 ''101''\<rparr>])),
      SetIsUploading False]"
    by (rule three_rows_trace)
qed


theorem failed_validation_blocks_insert_witness:
  "selected_file (example_env three_rows) = Some (Inr ''students.csv'') \<and>
   fetchTableData (example_env three_rows) ''students'' = Inr (Some [[(''student_id'', JStr ''100'')]]) \<and>
   Papa_parse (example_env three_rows) ''students.csv'' = ParseComplete [] three_rows \<and>
   three_rows \<noteq> [] \<and>
   validateStudentData three_rows
     (existing_student_ids [[(''student_id'', JStr ''100'')]] :: int jsval set) \<noteq> [] \<and>
   handleUpload example_runtime (example_env three_rows) ''students'' =
     [SetIsUploading True, SetError None, FetchTableData ''students'',
      SetError (Some (validation_report (validateStudentData three_rows
         (existing_student_ids [[(''student_id'', JStr ''100'')]] :: int jsval set)))),
      SetIsUploading False] \<and>
   length [\<lparr>row = 2, message = ''a''\<rparr>, \<lparr>row = 3, message = ''b''\<rparr>] \<le> 5 \<and>
   validation_report [\<lparr>row = 2, message = ''a''\<rparr>, \<lparr>row = 3, message = ''b''\<rparr>] =
     ''Validation errors found:'' @ newline @ ''a'' @ newline @ ''b'' \<and>
   5 < length (replicate 7 \<lparr>row = 1, message = ''a''\<rparr>) \<and>
   validation_report (replicate 7 \<lparr>row = 1, message = ''a''\<rparr>) =
     ''Validation errors found:'' @ newline @
     ''a'' @ newline @ ''a'' @ newline @ ''a'' @ newline @ ''a'' @ newline @ ''a'' @ newline @
     ''...and 2 more errors'' \<and>
   BulkInsert ''students'' (process_rows example_runtime (\<lambda>i. 1000) two_rows)
     \<in> set (handleUpload example_runtime (example_env two_rows) ''students'') \<and>
   (\<exists>rows' ex. validateStudentData rows' (ex :: int jsval set) = [] \<and>
      process_rows example_runtime (\<lambda>i. 1000) two_rows =
      process_rows example_runtime (clock (example_env two_rows)) rows')"
proof -
  have a: "selected_file (example_env three_rows) = Some (Inr ''students.csv'')"
    and b: "fetchTableData (example_env three_rows) ''students''
        = Inr (Some [[(''student_id'', JStr ''100'')]])"
    and c: "Papa_parse (example_env three_rows) ''students.csv'' = ParseComplete [] three_rows"
    by (simp_all add: example_env_def)
  have rows: "three_rows \<noteq> []"
    by (simp add: three_rows_def)
  have bad: "validateStudentData three_rows
     (existing_student_ids [[(''student_id'', JStr ''100'')]] :: int jsval set) \<noteq> []"
    by (simp add: example_ids three_rows_errors)
  note rejected = failed_validation_blocks_insert [of "example_env three_rows" "''students.csv''"
      "Some [[(''student_id'', JStr ''100'')]]" three_rows example_runtime,
      simplified option.case, THEN conjunct1]
  have trace: "handleUpload example_runtime (example_env three_rows) ''students'' =
     [SetIsUploading True, SetError None, FetchTableData ''students'',
      SetError (Some (validation_report (validateStudentData three_rows
         (existing_student_ids [[(''student_id'', JStr ''100'')]] :: int jsval set)))),
      SetIsUploading False]"
    by (rule mp [OF rejected]) (intro conjI a b c rows bad)
  let ?two = "[\<lparr>row = 2, message = ''a''\<rparr>, \<lparr>row = 3, message = ''b''\<rparr>]"
  let ?seven = "replicate 7 \<lparr>row = 1, message = ''a''\<rparr>"
  have few: "length ?two \<le> 5" by simp
  have many: "5 < length ?seven" by simp
  note short = failed_validation_blocks_insert [where errs = ?two and rt = example_runtime,
      THEN conjunct2, THEN conjunct1]
  have "validation_report ?two =
      ''Validation errors found:'' @ newline @ join newline (map message ?two)"
    by (rule mp [OF short]) (rule few)
  then have r2: "validation_report ?two =
      ''Validation errors found:'' @ newline @ ''a'' @ newline @ ''b''"
    by simp
  note long = failed_validation_blocks_insert [where errs = ?seven and rt = example_runtime,
      THEN conjunct2, THEN conjunct2, THEN conjunct1]
  have "validation_report ?seven =
      ''Validation errors found:'' @ newline @ join newline (map message (take 5 ?seven)) @
      newline @ ''...and '' @ show_nat (length ?seven - 5) @ '' more errors''"
    by (rule mp [OF long]) (rule many)
  moreover have "show_nat 2 = ''2''"
    by (simp add: show_nat.simps digit_char_def)
  moreover have "take 5 ?seven = replicate 5 \<lparr>row = 1, message = ''a''\<rparr>"
    by simp
  ultimately have r7: "validation_report ?seven =
     ''Validation errors found:'' @ newline @
     ''a'' @ newline @ ''a'' @ newline @ ''a'' @ newline @ ''a'' @ newline @ ''a'' @ newline @
     ''...and 2 more errors''"
    by (simp add: numeral_eq_Suc)
  have ins: "BulkInsert ''students'' (process_rows example_runtime (\<lambda>i. 1000) two_rows)
     \<in> set (handleUpload example_runtime (example_env two_rows) ''students'')"
    by (simp add: two_rows_trace)
  note valid = failed_validation_blocks_insert [where rt = example_runtime
      and env = "example_env two_rows"
      and recs = "process_rows example_runtime (\<lambda>i. 1000) two_rows",
      THEN conjunct2, THEN conjunct2, THEN conjunct2, THEN conjunct1]
  have ok: "\<exists>rows' ex. validateStudentData rows' (ex :: int jsval set) = [] \<and>
      process_rows example_runtime (\<lambda>i. 1000) two_rows =
      process_rows example_runtime (clock (example_env two_rows)) rows'"
    by (rule mp [OF valid]) (rule ins)
  show ?thesis
    by (intro conjI a b c rows bad trace few r2 many r7 ins ok)
qed

text \<open>
  The claim as first stated, rejection before any network call, fails: the rejected file of
  three rows has one network call in its run, the fetch of the existing rows.
\<close>

theorem rejected_after_fetch_counterexample:
  "validateStudentData three_rows
     (existing_student_ids [[(''student_id'', JStr ''100'')]] :: int jsval set) \<noteq> [] \<and>
   filter is_network_call (handleUpload example_runtime (example_env three_rows) ''students'') =
     [FetchTableData ''students'']"
  by (simp add: example_ids three_rows_errors three_rows_trace)

subsection \<open>A failing \<^verbatim>\<open>bulkInsert\<close>\<close>

lemma two_rows_nonempty: "two_rows \<noteq> []"
  by (simp add: two_rows_def)

lemma refusing_env_trace:
  "handleUpload example_runtime (refusing_env two_rows m) ''students'' =
     [SetIsUploading True, SetError None, FetchTableData ''students''] @
     persist (refusing_env two_rows m) ''students''
       (process_rows example_runtime (\<lambda>i. 1000) two_rows)"
proof -
  have "handleUpload example_runtime (refusing_env two_rows m) ''students'' =
     [SetIsUploading True, SetError None, FetchTableData ''students''] @
     persist (refusing_env two_rows m) ''students''
       (process_rows example_runtime (clock (refusing_env two_rows m)) two_rows)"
    by (rule validated_trace [where content = "''students.csv''"
          and existingData = "[[(''student_id'', JStr ''100'')]]"])
       (simp_all add: refusing_env_def example_env_def example_ids two_rows_valid two_rows_nonempty)
  moreover have "clock (refusing_env two_rows m) = (\<lambda>i. 1000)"
    by (simp add: refusing_env_def example_env_def)
  ultimately show ?thesis by simp
qed

lemma failing_env_trace:
  "handleUpload example_runtime (failing_env two_rows err) ''students'' =
     [SetIsUploading True, SetError None, FetchTableData ''students''] @
     persist (failing_env two_rows err) ''students''
       (process_rows example_runtime (\<lambda>i. 1000) two_rows)"
proof -
  have "handleUpload example_runtime (failing_env two_rows err) ''students'' =
     [SetIsUploading True, SetError None, FetchTableData ''students''] @
     persist (failing_env two_rows err) ''students''
       (process_rows example_runtime (clock (failing_env two_rows err)) two_rows)"
    by (rule validated_trace [where content = "''students.csv''"
          and existingData = "[[(''student_id'', JStr ''100'')]]"])
       (simp_all add: failing_env_def example_env_def example_ids two_rows_valid two_rows_nonempty)
  moreover have "clock (failing_env two_rows err) = (\<lambda>i. 1000)"
    by (simp add: failing_env_def example_env_def)
  ultimately show ?thesis by simp
qed

lemma persist_refused:
  assumes "bulkInsert env t recs = Inr result" and "\<not> success result"
  shows "persist env t recs =
     [BulkInsert t recs, SetIsUploading False,
      SetError (Some (if includes_str (result_message result) ''duplicate key value''
                      then duplicate_key_notice else result_message result))]"
  using assms by (simp add: persist_def classify_message_def)

lemma persist_thrown:
  assumes "bulkInsert env t recs = Inl err"
  shows "persist env t recs =
     [BulkInsert t recs,
      SetError (Some (classify_message (message_or err ''Error uploading data''))),
      SetIsUploading False]"
  using assms by (simp add: persist_def)

lemma default_not_duplicate: "classify_message ''Error uploading data'' = ''Error uploading data''"
  by (simp add: classify_message_def startsWith_def)

text \<open>
  Claim C9, as amended. When \<^verbatim>\<open>bulkInsert\<close> answers with \<^verbatim>\<open>success: false\<close>, or rejects with a
  non-empty message, the run ends by reporting that message, replaced by the notice about
  student IDs that already exist when it contains \<^verbatim>\<open>duplicate key value\<close> and unchanged
  otherwise. When \<^verbatim>\<open>bulkInsert\<close> rejects with no message or an empty one, the run reports
  \<^verbatim>\<open>Error uploading data\<close>.
\<close>

theorem insert_failure_report:
  "(BulkInsert tn recs \<in> set (handleUpload rt env tableName) \<and>
    bulkInsert env tn recs = Inr result \<and> \<not> success result \<longrightarrow>
      (\<exists>pre. handleUpload rt env tableName =
         pre @ [BulkInsert tn recs, SetIsUploading False,
                SetError (Some (if includes_str (result_message result) ''duplicate key value''
                                then duplicate_key_notice else result_message result))])) \<and>
   (BulkInsert tn recs \<in> set (handleUpload rt env tableName) \<and>
    bulkInsert env tn recs = Inl (Some m) \<and> m \<noteq> [] \<longrightarrow>
      (\<exists>pre. handleUpload rt env tableName =
         pre @ [BulkInsert tn recs,
                SetError (Some (if includes_str m ''duplicate key value''
                                then duplicate_key_notice else m)),
                SetIsUploading False])) \<and>
   (BulkInsert tn recs \<in> set (handleUpload rt env tableName) \<and>
    (bulkInsert env tn recs = Inl None \<or> bulkInsert env tn recs = Inl (Some [])) \<longrightarrow>
      (\<exists>pre. handleUpload rt env tableName =
         pre @ [BulkInsert tn recs, SetError (Some ''Error uploading data''),
                SetIsUploading False])) \<and>
   includes_str ''duplicate key value violates unique constraint'' ''duplicate key value'' \<and>
   \<not> includes_str ''Failed to fetch'' ''duplicate key value''"
proof (intro conjI impI)
  assume h: "BulkInsert tn recs \<in> set (handleUpload rt env tableName) \<and>
    bulkInsert env tn recs = Inr result \<and> \<not> success result"
  then have "BulkInsert tn recs \<in> set (handleUpload rt env tableName)" by simp
  then obtain pre where "tn = tableName"
    and "handleUpload rt env tableName = pre @ persist env tableName recs"
    by (rule bulk_in_handleUpload)
  with h show "\<exists>pre. handleUpload rt env tableName =
         pre @ [BulkInsert tn recs, SetIsUploading False,
                SetError (Some (if includes_str (result_message result) ''duplicate key value''
                                then duplicate_key_notice else result_message result))]"
    using persist_refused [of env tn recs result] by auto
next
  assume h: "BulkInsert tn recs \<in> set (handleUpload rt env tableName) \<and>
    bulkInsert env tn recs = Inl (Some m) \<and> m \<noteq> []"
  then have "BulkInsert tn recs \<in> set (handleUpload rt env tableName)" by simp
  then obtain pre where "tn = tableName"
    and "handleUpload rt env tableName = pre @ persist env tableName recs"
    by (rule bulk_in_handleUpload)
  with h show "\<exists>pre. handleUpload rt env tableName =
         pre @ [BulkInsert tn recs,
                SetError (Some (if includes_str m ''duplicate key value''
                                then duplicate_key_notice else m)),
                SetIsUploading False]"
    using persist_thrown [of env tn recs "Some m"]
    by (auto simp add: message_or_def classify_message_def)
next
  assume h: "BulkInsert tn recs \<in> set (handleUpload rt env tableName) \<and>
    (bulkInsert env tn recs = Inl None \<or> bulkInsert env tn recs = Inl (Some []))"
  then have "BulkInsert tn recs \<in> set (handleUpload rt env tableName)" by simp
  then obtain pre where tn: "tn = tableName"
    and whole: "handleUpload rt env tableName = pre @ persist env tableName recs"
    by (rule bulk_in_handleUpload)
  from h obtain err where err: "bulkInsert env tn recs = Inl err"
    and d: "message_or err ''Error uploading data'' = ''Error uploading data''"
    by (auto simp add: message_or_def)
  from persist_thrown [OF err] d
  have "persist env tn recs =
      [BulkInsert tn recs, SetError (Some ''Error uploading data''), SetIsUploading False]"
    by (simp add: default_not_duplicate)
  with tn whole show "\<exists>pre. handleUpload rt env tableName =
         pre @ [BulkInsert tn recs, SetError (Some ''Error uploading data''),
                SetIsUploading False]"
    by auto
next
  show "includes_str ''duplicate key value violates unique constraint'' ''duplicate key value''"
    by (simp add: startsWith_def)
  show "\<not> includes_str ''Failed to fetch'' ''duplicate key value''"
    by (simp add: startsWith_def)
qed


theorem insert_failure_report_witness:
  "BulkInsert ''students'' (process_rows example_runtime (\<lambda>i. 1000) two_rows)
     \<in> set (handleUpload example_runtime
              (refusing_env two_rows ''duplicate key value violates unique constraint'')
              ''students'') \<and>
   bulkInsert (refusing_env two_rows ''duplicate key value violates unique constraint'')
     ''students'' (process_rows example_runtime (\<lambda>i. 1000) two_rows)
     = Inr \<lparr>success = False,
            result_message = ''duplicate key value violates unique constraint''\<rparr> \<and>
   (\<exists>pre. handleUpload example_runtime
            (refusing_env two_rows ''duplicate key value violates unique constraint'')
            ''students'' =
      pre @ [BulkInsert ''students'' (process_rows example_runtime (\<lambda>i. 1000) two_rows),
             SetIsUploading False, SetError (Some duplicate_key_notice)]) \<and>
   BulkInsert ''students'' (process_rows example_runtime (\<lambda>i. 1000) two_rows)
     \<in> set (handleUpload example_runtime (failing_env two_rows (Some ''Failed to fetch''))
              ''students'') \<and>
   bulkInsert (failing_env two_rows (Some ''Failed to fetch''))
     ''students'' (process_rows example_runtime (\<lambda>i. 1000) two_rows)
     = Inl (Some ''Failed to fetch'') \<and>
   (\<exists>pre. handleUpload example_runtime (failing_env two_rows (Some ''Failed to fetch''))
            ''students'' =
      pre @ [BulkInsert ''students'' (process_rows example_runtime (\<lambda>i. 1000) two_rows),
             SetError (Some ''Failed to fetch''), SetIsUploading False]) \<and>
   BulkInsert ''students'' (process_rows example_runtime (\<lambda>i. 1000) two_rows)
     \<in> set (handleUpload example_runtime (failing_env two_rows None) ''students'') \<and>
   bulkInsert (failing_env two_rows None)
     ''students'' (process_rows example_runtime (\<lambda>i. 1000) two_rows) = Inl None \<and>
   (\<exists>pre. handleUpload example_runtime (failing_env two_rows None) ''students'' =
      pre @ [BulkInsert ''students'' (process_rows example_runtime (\<lambda>i. 1000) two_rows),
             SetError (Some ''Error uploading data''), SetIsUploading False])"
proof -
  let ?m = "''duplicate key value violates unique constraint''"
  let ?recs = "process_rows example_runtime (\<lambda>i. 1000) two_rows"
  let ?refused = "\<lparr>success = False, result_message = ?m\<rparr>"
  have ins: "BulkInsert ''students'' ?recs
      \<in> set (handleUpload example_runtime (refusing_env two_rows ?m) ''students'')"
    by (simp add: refusing_env_trace bulk_in_persist)
  have res: "bulkInsert (refusing_env two_rows ?m) ''students'' ?recs = Inr ?refused"
    by (simp add: refusing_env_def example_env_def)
  have no: "\<not> success ?refused"
    by simp
  have dup: "includes_str (result_message ?refused) ''duplicate key value''"
    by (simp add: startsWith_def)
  note report = insert_failure_report [of "''students''" ?recs example_runtime
      "refusing_env two_rows ?m" "''students''" ?refused, THEN conjunct1]
  have "\<exists>pre. handleUpload example_runtime (refusing_env two_rows ?m) ''students'' =
      pre @ [BulkInsert ''students'' ?recs, SetIsUploading False,
             SetError (Some (if includes_str (result_message ?refused) ''duplicate key value''
                             then duplicate_key_notice
                             else result_message ?refused))]"
    by (rule mp [OF report]) (intro conjI ins res no)
  then have rewritten: "\<exists>pre. handleUpload example_runtime (refusing_env two_rows ?m) ''students'' =
      pre @ [BulkInsert ''students'' ?recs, SetIsUploading False, SetError (Some duplicate_key_notice)]"
    by (simp only: dup if_True)
  let ?f = "''Failed to fetch''"
  have ins2: "BulkInsert ''students'' ?recs
      \<in> set (handleUpload example_runtime (failing_env two_rows (Some ?f)) ''students'')"
    by (simp add: failing_env_trace bulk_in_persist)
  have thrown: "bulkInsert (failing_env two_rows (Some ?f)) ''students'' ?recs = Inl (Some ?f)"
    by (simp add: failing_env_def example_env_def)
  have msg: "?f \<noteq> []" by simp
  have other: "\<not> includes_str ?f ''duplicate key value''"
    by (simp add: startsWith_def)
  note report2 = insert_failure_report [where tn = "''students''" and recs = ?recs
      and rt = example_runtime and env = "failing_env two_rows (Some ?f)"
      and tableName = "''students''" and m = ?f, THEN conjunct2, THEN conjunct1]
  have "\<exists>pre. handleUpload example_runtime (failing_env two_rows (Some ?f)) ''students'' =
      pre @ [BulkInsert ''students'' ?recs,
             SetError (Some (if includes_str ?f ''duplicate key value''
                             then duplicate_key_notice else ?f)),
             SetIsUploading False]"
    by (rule mp [OF report2]) (intro conjI ins2 thrown msg)
  then have passed: "\<exists>pre. handleUpload example_runtime (failing_env two_rows (Some ?f)) ''students'' =
      pre @ [BulkInsert ''students'' ?recs, SetError (Some ?f), SetIsUploading False]"
    by (simp only: other if_False)
  have ins3: "BulkInsert ''students'' ?recs
      \<in> set (handleUpload example_runtime (failing_env two_rows None) ''students'')"
    by (simp add: failing_env_trace bulk_in_persist)
  have silent: "bulkInsert (failing_env two_rows None) ''students'' ?recs = Inl None"
    by (simp add: failing_env_def example_env_def)
  note report3 = insert_failure_report [where tn = "''students''" and recs = ?recs
      and rt = example_runtime and env = "failing_env two_rows None"
      and tableName = "''students''", THEN conjunct2, THEN conjunct2, THEN conjunct1]
  have fallback: "\<exists>pre. handleUpload example_runtime (failing_env two_rows None) ''students'' =
      pre @ [BulkInsert ''students'' ?recs, SetError (Some ''Error uploading data''),
             SetIsUploading False]"
    by (rule mp [OF report3]) (intro conjI disjI1 ins3 silent)
  show ?thesis
    by (intro conjI ins res rewritten ins2 thrown passed ins3 silent fallback)
qed

text \<open>
  The claim as first stated, every other message passed through unchanged, fails for a
  rejection whose message is empty: the report is \<^verbatim>\<open>Error uploading data\<close>.
\<close>

theorem empty_error_message_counterexample:
  "bulkInsert (failing_env two_rows (Some [])) ''students''
     (process_rows example_runtime (\<lambda>i. 1000) two_rows) = Inl (Some []) \<and>
   \<not> includes_str [] ''duplicate key value'' \<and>
   handleUpload example_runtime (failing_env two_rows (Some [])) ''students'' =
     [SetIsUploading True, SetError None, FetchTableData ''students'',
      BulkInsert ''students'' (process_rows example_runtime (\<lambda>i. 1000) two_rows),
      SetError (Some ''Error uploading data''), SetIsUploading False]"
proof -
  have thrown: "bulkInsert (failing_env two_rows (Some [])) ''students''
     (process_rows example_runtime (\<lambda>i. 1000) two_rows) = Inl (Some [])"
    by (simp add: failing_env_def example_env_def)
  have "persist (failing_env two_rows (Some [])) ''students''
      (process_rows example_runtime (\<lambda>i. 1000) two_rows) =
    [BulkInsert ''students'' (process_rows example_runtime (\<lambda>i. 1000) two_rows),
     SetError (Some ''Error uploading data''), SetIsUploading False]"
    by (simp add: persist_thrown [OF thrown] message_or_def default_not_duplicate)
  then have "handleUpload example_runtime (failing_env two_rows (Some [])) ''students'' =
     [SetIsUploading True, SetError None, FetchTableData ''students'',
      BulkInsert ''students'' (process_rows example_runtime (\<lambda>i. 1000) two_rows),
      SetError (Some ''Error uploading data''), SetIsUploading False]"
    by (simp only: failing_env_trace append.simps)
  with thrown show ?thesis by simp
qed

end
